theory Spec2Isabelle
  imports Main "HOL-Library.AList"
begin

section \<open>JavaScript values\<close>

text \<open>
  An envelope arrives as the result of \<^verbatim>\<open>JSON.parse\<close> (or as an object
  literal built by \<^verbatim>\<open>createMessage\<close>), so the values the router handles are
  the JSON values plus \<^verbatim>\<open>undefined\<close>, which a read of an absent property yields.
  An object is the list of its own properties in enumeration order; the first pair with
  a given key is the property. A number is given by the text that JavaScript prints for
  it (\<^verbatim>\<open>5\<close>, \<^verbatim>\<open>-0.25\<close>, \<^verbatim>\<open>1e+21\<close>, \<^verbatim>\<open>Infinity\<close>): that text
  determines the number up to the sign of zero, which nothing in the server can observe,
  and it is all the server ever asks of a number it receives, besides whether it is zero.
  Text is \<open>string\<close>.
\<close>

datatype jsval =
    Undefined
  | Null
  | Bool bool
  | Num string
  | Str string
  | Arr "jsval list"
  | Obj "(string \<times> jsval) list"

type_synonym obj = "(string \<times> jsval) list"

datatype error = TypeError

text \<open>A call either returns or raises; what it did to the state before raising stays
  done.\<close>

datatype outcome = Returned | Thrown error

text \<open>\<^verbatim>\<open>'k' in o\<close> and \<^verbatim>\<open>o.k\<close> for an object \<open>o\<close> and a key that
  \<^verbatim>\<open>Object.prototype\<close> does not define.\<close>

definition hasKey :: "string \<Rightarrow> obj \<Rightarrow> bool" where
  "hasKey k m = (map_of m k \<noteq> None)"

definition getp :: "obj \<Rightarrow> string \<Rightarrow> jsval" where
  "getp m k = (case map_of m k of None \<Rightarrow> Undefined | Some v \<Rightarrow> v)"

text \<open>\<^verbatim>\<open>v.k\<close> for any value \<open>v\<close>, for the keys the router reads this way
  (\<^verbatim>\<open>name\<close>, \<^verbatim>\<open>currentTask\<close>): reading a property of \<^verbatim>\<open>null\<close> or
  \<^verbatim>\<open>undefined\<close> raises, a primitive or an array has no such property.\<close>

fun readField :: "jsval \<Rightarrow> string \<Rightarrow> error + jsval" where
  "readField Undefined k = Inl TypeError"
| "readField Null k = Inl TypeError"
| "readField (Obj m) k = Inr (getp m k)"
| "readField v k = Inr Undefined"

text \<open>Truthiness, as \<^verbatim>\<open>||\<close>, \<^verbatim>\<open>?:\<close> and \<^verbatim>\<open>if\<close> test it. The falsy
  numbers are the two zeros, both printed \<^verbatim>\<open>0\<close>, and \<^verbatim>\<open>NaN\<close>.\<close>

fun truthy :: "jsval \<Rightarrow> bool" where
  "truthy Undefined = False"
| "truthy Null = False"
| "truthy (Bool b) = b"
| "truthy (Num t) = (t \<noteq> ''0'' \<and> t \<noteq> ''NaN'')"
| "truthy (Str s) = (s \<noteq> [])"
| "truthy (Arr xs) = True"
| "truthy (Obj m) = True"

text \<open>\<^verbatim>\<open>a === b\<close>. \<^verbatim>\<open>NaN\<close> equals nothing, itself included. Objects and
  arrays are equal only when they are the same object; the router compares a stored name
  with a name read from a later envelope, two different parses, so such operands are
  never identical.\<close>

fun strictEq :: "jsval \<Rightarrow> jsval \<Rightarrow> bool" where
  "strictEq Undefined Undefined = True"
| "strictEq Null Null = True"
| "strictEq (Bool a) (Bool b) = (a = b)"
| "strictEq (Num a) (Num b) = (a = b \<and> a \<noteq> ''NaN'')"
| "strictEq (Str a) (Str b) = (a = b)"
| "strictEq a b = False"

subsection \<open>Conversion to text\<close>

text \<open>The numbers that the server itself makes are readings of \<^verbatim>\<open>Date.now()\<close>,
  integers of magnitude at most 8640000000000000, and array lengths, below two to the 32.
  JavaScript prints an integer of magnitude below ten to the 21 as its decimal digits.\<close>

definition digitChar :: "nat \<Rightarrow> char" where
  "digitChar d = ''0123456789'' ! d"

fun showNat :: "nat \<Rightarrow> string" where
  "showNat n = (if n < 10 then [digitChar n] else showNat (n div 10) @ [digitChar (n mod 10)])"

declare showNat.simps [simp del]

definition showInt :: "int \<Rightarrow> string" where
  "showInt i = (if i < 0 then CHR ''-'' # showNat (nat (- i)) else showNat (nat i))"

text \<open>
  \<^verbatim>\<open>String(v)\<close> and \<^verbatim>\<open>${v}\<close>. A number converts to the text that stands
  for it. An object converts through its
  \<^verbatim>\<open>toString\<close>: the inherited one gives \<^verbatim>\<open>[object Object]\<close>, but an own
  property of that name (a JSON value, so not callable) hides it, and the conversion
  raises \<^verbatim>\<open>TypeError\<close>. An array converts by joining its elements with a comma;
  \<^verbatim>\<open>join\<close> renders \<^verbatim>\<open>null\<close> and \<^verbatim>\<open>undefined\<close> elements as the
  empty text.
\<close>

fun ToString :: "jsval \<Rightarrow> error + string"
  and joinElems :: "string \<Rightarrow> jsval list \<Rightarrow> error + string" where
  "ToString Undefined = Inr ''undefined''"
| "ToString Null = Inr ''null''"
| "ToString (Bool b) = Inr (if b then ''true'' else ''false'')"
| "ToString (Num t) = Inr t"
| "ToString (Str s) = Inr s"
| "ToString (Arr xs) = joinElems '','' xs"
| "ToString (Obj m) = (if hasKey ''toString'' m then Inl TypeError else Inr ''[object Object]'')"
| "joinElems sep [] = Inr []"
| "joinElems sep (x # xs) =
     (case (if x = Undefined \<or> x = Null then Inr [] else ToString x) of
        Inl e \<Rightarrow> Inl e
      | Inr a \<Rightarrow>
          (case joinElems sep xs of
             Inl e \<Rightarrow> Inl e
           | Inr r \<Rightarrow> Inr (if xs = [] then a else a @ sep @ r)))"

text \<open>A template literal converts each interpolated value in order; the first
  conversion that raises ends the evaluation.\<close>

fun template :: "jsval list \<Rightarrow> error + string list" where
  "template [] = Inr []"
| "template (v # vs) =
     (case ToString v of
        Inl e \<Rightarrow> Inl e
      | Inr t \<Rightarrow> (case template vs of Inl e \<Rightarrow> Inl e | Inr ts \<Rightarrow> Inr (t # ts)))"

section \<open>Message utilities\<close>

text \<open>\<^verbatim>\<open>createMessage\<close>: the partial message with \<^verbatim>\<open>id\<close> and
  \<^verbatim>\<open>timestamp\<close> filled in when they are absent or falsy. \<open>gid\<close> is what
  \<^verbatim>\<open>generateMessageId()\<close> returns and \<open>now\<close> what \<^verbatim>\<open>Date.now()\<close> returns.\<close>

definition createMessage :: "string \<Rightarrow> int \<Rightarrow> obj \<Rightarrow> obj" where
  "createMessage gid now partialMessage =
     AList.update ''timestamp''
       (if truthy (getp partialMessage ''timestamp'') then getp partialMessage ''timestamp''
        else Num (showInt now))
       (AList.update ''id''
          (if truthy (getp partialMessage ''id'') then getp partialMessage ''id'' else Str gid)
          partialMessage)"

fun isStr :: "jsval \<Rightarrow> bool" where
  "isStr (Str s) = True"
| "isStr v = False"

fun isNum :: "jsval \<Rightarrow> bool" where
  "isNum (Num t) = True"
| "isNum v = False"

text \<open>\<^verbatim>\<open>isValidMessage\<close>: the check of the four base fields. An array is an
  object to \<^verbatim>\<open>typeof\<close> but has no \<^verbatim>\<open>id\<close>.\<close>

fun isValidMessage :: "jsval \<Rightarrow> bool" where
  "isValidMessage (Obj m) =
     (isStr (getp m ''id'') \<and> isNum (getp m ''timestamp'') \<and>
      isStr (getp m ''type'') \<and> isStr (getp m ''source''))"
| "isValidMessage v = False"

text \<open>\<^verbatim>\<open>validateMessageType\<close>: a \<^verbatim>\<open>switch\<close> on the type (strict equality
  with the five literals), each case testing the presence of the fields of its kind.\<close>

definition validateMessageType :: "obj \<Rightarrow> bool" where
  "validateMessageType message =
     (if getp message ''type'' = Str ''chat'' then
        hasKey ''content'' message \<and> hasKey ''priority'' message
      else if getp message ''type'' = Str ''command'' then
        hasKey ''targetComputer'' message \<and> hasKey ''functionName'' message \<and>
        hasKey ''parameters'' message
      else if getp message ''type'' = Str ''api_registration'' then
        hasKey ''computerName'' message \<and> hasKey ''computerType'' message \<and>
        hasKey ''functions'' message
      else if getp message ''type'' = Str ''status_update'' then
        hasKey ''computerName'' message \<and> hasKey ''status'' message
      else if getp message ''type'' = Str ''command_response'' then
        hasKey ''originalCommandId'' message \<and> hasKey ''success'' message
      else False)"

text \<open>\<^verbatim>\<open>.replace(/[<>]/g, '')\<close>\<close>

definition stripAngles :: "string \<Rightarrow> string" where
  "stripAngles s = filter (\<lambda>c. c \<noteq> CHR ''<'' \<and> c \<noteq> CHR ''>'') s"

text \<open>\<^verbatim>\<open>sanitizeMessage\<close>: for a chat, a copy of the message whose content is
  \<^verbatim>\<open>String(message.content)\<close> without angle brackets; any other message itself.\<close>

definition sanitizeMessage :: "obj \<Rightarrow> error + obj" where
  "sanitizeMessage message =
     (if getp message ''type'' = Str ''chat'' then
        (case ToString (getp message ''content'') of
           Inl e \<Rightarrow> Inl e
         | Inr c \<Rightarrow> Inr (AList.update ''content'' (Str (stripAngles c)) message))
      else Inr message)"

text \<open>\<^verbatim>\<open>logMessage\<close> writes one line to the console; the line interpolates the
  type and the source of the message.\<close>

definition logMessage :: "obj \<Rightarrow> error + string list" where
  "logMessage message = template [getp message ''type'', getp message ''source'']"

section \<open>Client manager\<close>

datatype role = Dashboard | Computercraft

text \<open>
  A WebSocket of the \<^verbatim>\<open>ws\<close> library, as far as the server uses it: its
  \<^verbatim>\<open>readyState\<close> (\<^verbatim>\<open>WebSocket.OPEN\<close> is 1), whether a write to it
  (\<^verbatim>\<open>send\<close>, \<^verbatim>\<open>ping\<close>) raises, the values whose \<^verbatim>\<open>JSON.stringify\<close>
  text has been handed to \<^verbatim>\<open>send\<close>, oldest first, and the number of pings handed
  to it.
\<close>

record socket =
  readyState :: nat
  faulty :: bool
  frames :: "obj list"
  pings :: nat

definition OPEN :: nat where
  "OPEN = 1"

text \<open>
  Modelled from the spec: the \<^verbatim>\<open>ConnectedClient\<close> interface, which the server's
  \<^verbatim>\<open>types/messages.ts\<close> declares and the sources do not include. The fields are
  those of the spec's connection record, which are also the ones
  \<^verbatim>\<open>ClientManager\<close> and \<^verbatim>\<open>index.ts\<close> read and write: \<open>cid\<close> is
  \<^verbatim>\<open>id\<close>, \<open>ctype\<close> is \<^verbatim>\<open>type\<close>, \<open>ws\<close> is the reference to the
  WebSocket object (a handle into the socket store of the state). A field that was never
  assigned reads \<^verbatim>\<open>undefined\<close>.
\<close>

record client =
  cid :: string
  ws :: nat
  ctype :: role
  connectedAt :: int
  lastPing :: "int option"
  computerName :: jsval
  computerType :: jsval
  registeredFunctions :: jsval
  userAgent :: jsval

text \<open>
  The state the services act on: the \<^verbatim>\<open>clients\<close> map of the manager, a
  \<^verbatim>\<open>Map\<close> in insertion order, and the WebSocket objects its records refer to.
\<close>

record state =
  clients :: "(string \<times> client) list"
  sockets :: "nat \<Rightarrow> socket"

definition PING_INTERVAL :: int where
  "PING_INTERVAL = 30000"

text \<open>The \<^verbatim>\<open>Partial<ConnectedClient>\<close> that the callers of
  \<^verbatim>\<open>updateClient\<close> build: the fields it sets, in order, which
  \<^verbatim>\<open>Object.assign\<close> assigns one by one.\<close>

datatype assignment =
    SetType role
  | SetComputerName jsval
  | SetComputerType jsval
  | SetRegisteredFunctions jsval

fun assign :: "client \<Rightarrow> assignment \<Rightarrow> client" where
  "assign c (SetType t) = c\<lparr>ctype := t\<rparr>"
| "assign c (SetComputerName v) = c\<lparr>computerName := v\<rparr>"
| "assign c (SetComputerType v) = c\<lparr>computerType := v\<rparr>"
| "assign c (SetRegisteredFunctions v) = c\<lparr>registeredFunctions := v\<rparr>"

definition generateClientId :: "int \<Rightarrow> string \<Rightarrow> string" where
  "generateClientId now rnd = ''client_'' @ showInt now @ ''_'' @ rnd"

text \<open>\<^verbatim>\<open>addClient\<close>; \<open>rnd\<close> is the random suffix of the generated id, and the
  metadata is what the only caller passes, the user agent of the request.\<close>

definition addClient :: "state \<Rightarrow> int \<Rightarrow> string \<Rightarrow> nat \<Rightarrow> role \<Rightarrow> jsval \<Rightarrow> string \<times> state" where
  "addClient s now rnd w t agent =
     (let clientId = generateClientId now rnd;
          c = \<lparr>cid = clientId, ws = w, ctype = t, connectedAt = now, lastPing = Some now,
               computerName = Undefined, computerType = Undefined,
               registeredFunctions = Undefined, userAgent = agent\<rparr>
      in (clientId, s\<lparr>clients := AList.update clientId c (clients s)\<rparr>))"

text \<open>\<^verbatim>\<open>removeClient\<close>: for an id that has a record, a log line that
  interpolates the computer name of the record when that is truthy, then the deletion.\<close>

definition removeClient :: "state \<Rightarrow> string \<Rightarrow> outcome \<times> state" where
  "removeClient s clientId =
     (case map_of (clients s) clientId of
        None \<Rightarrow> (Returned, s)
      | Some c \<Rightarrow>
          (case (if truthy (computerName c) then ToString (computerName c) else Inr []) of
             Inl e \<Rightarrow> (Thrown e, s)
           | Inr line \<Rightarrow> (Returned, s\<lparr>clients := AList.delete clientId (clients s)\<rparr>)))"

definition getClient :: "state \<Rightarrow> string \<Rightarrow> client option" where
  "getClient s clientId = map_of (clients s) clientId"

definition getClientsByType :: "state \<Rightarrow> role \<Rightarrow> client list" where
  "getClientsByType s t = filter (\<lambda>c. ctype c = t) (map snd (clients s))"

definition getComputerByName :: "state \<Rightarrow> jsval \<Rightarrow> client option" where
  "getComputerByName s name =
     find (\<lambda>c. ctype c = Computercraft \<and> strictEq (computerName c) name) (map snd (clients s))"

definition updateClient :: "state \<Rightarrow> string \<Rightarrow> assignment list \<Rightarrow> state" where
  "updateClient s clientId updates =
     (case map_of (clients s) clientId of
        None \<Rightarrow> s
      | Some c \<Rightarrow> s\<lparr>clients := AList.update clientId (foldl assign c updates) (clients s)\<rparr>)"

text \<open>\<^verbatim>\<open>client.lastPing || client.connectedAt\<close>: an absent or zero
  \<^verbatim>\<open>lastPing\<close> is falsy.\<close>

definition pingStamp :: "client \<Rightarrow> int" where
  "pingStamp c =
     (case lastPing c of
        None \<Rightarrow> connectedAt c
      | Some p \<Rightarrow> if p \<noteq> 0 then p else connectedAt c)"

definition isClientAlive :: "state \<Rightarrow> int \<Rightarrow> string \<Rightarrow> bool" where
  "isClientAlive s now clientId =
     (case map_of (clients s) clientId of
        None \<Rightarrow> False
      | Some c \<Rightarrow> now - pingStamp c < PING_INTERVAL * 3)"

text \<open>\<^verbatim>\<open>sendToClient\<close>: false when the record is absent or its socket is not
  open; otherwise the send is tried, and a send that raises is caught and gives false.\<close>

definition sendToClient :: "state \<Rightarrow> string \<Rightarrow> obj \<Rightarrow> bool \<times> state" where
  "sendToClient s clientId message =
     (case map_of (clients s) clientId of
        None \<Rightarrow> (False, s)
      | Some c \<Rightarrow>
          if readyState (sockets s (ws c)) \<noteq> OPEN then (False, s)
          else if faulty (sockets s (ws c)) then (False, s)
          else (True,
                s\<lparr>sockets := (sockets s)
                     (ws c := (sockets s (ws c))
                        \<lparr>frames := frames (sockets s (ws c)) @ [message]\<rparr>)\<rparr>))"

text \<open>The loop of \<^verbatim>\<open>broadcastToType\<close> over the array of clients, with the
  running \<^verbatim>\<open>sentCount\<close>.\<close>

fun sendEach :: "state \<Rightarrow> client list \<Rightarrow> obj \<Rightarrow> nat \<Rightarrow> nat \<times> state" where
  "sendEach s [] message sentCount = (sentCount, s)"
| "sendEach s (c # cs) message sentCount =
     (case sendToClient s (cid c) message of
        (ok, s') \<Rightarrow> sendEach s' cs message (if ok then sentCount + 1 else sentCount))"

definition broadcastToType :: "state \<Rightarrow> role \<Rightarrow> obj \<Rightarrow> nat \<times> state" where
  "broadcastToType s t message = sendEach s (getClientsByType s t) message 0"

definition broadcastToAll :: "state \<Rightarrow> obj \<Rightarrow> nat \<times> state" where
  "broadcastToAll s message =
     (case broadcastToType s Dashboard message of
        (n1, s1) \<Rightarrow>
          (case broadcastToType s1 Computercraft message of (n2, s2) \<Rightarrow> (n1 + n2, s2)))"

record stats =
  totalClients :: nat
  dashboards :: nat
  computers :: nat
  aliveClients :: nat

definition getStats :: "state \<Rightarrow> int \<Rightarrow> stats" where
  "getStats s now =
     \<lparr>totalClients = length (clients s),
      dashboards = length (getClientsByType s Dashboard),
      computers = length (getClientsByType s Computercraft),
      aliveClients = length (filter (\<lambda>c. isClientAlive s now (cid c)) (map snd (clients s)))\<rparr>"

text \<open>\<^verbatim>\<open>cleanup\<close>: collect the ids of the records that are not alive or whose
  socket is not open, then remove them one by one.\<close>

definition deadClients :: "state \<Rightarrow> int \<Rightarrow> string list" where
  "deadClients s now =
     map fst (filter (\<lambda>(clientId, c).
       \<not> isClientAlive s now clientId \<or> readyState (sockets s (ws c)) \<noteq> OPEN) (clients s))"

fun removeEach :: "state \<Rightarrow> string list \<Rightarrow> outcome \<times> state" where
  "removeEach s [] = (Returned, s)"
| "removeEach s (clientId # ids) =
     (case removeClient s clientId of
        (Thrown e, s') \<Rightarrow> (Thrown e, s')
      | (Returned, s') \<Rightarrow> removeEach s' ids)"

definition cleanup :: "state \<Rightarrow> int \<Rightarrow> outcome \<times> state" where
  "cleanup s now = removeEach s (deadClients s now)"

text \<open>The second half of the heartbeat: every record whose socket is open is pinged
  and, when the ping did not raise, stamped.\<close>

fun pingEach :: "state \<Rightarrow> int \<Rightarrow> string list \<Rightarrow> state" where
  "pingEach s now [] = s"
| "pingEach s now (clientId # ids) =
     (case map_of (clients s) clientId of
        None \<Rightarrow> pingEach s now ids
      | Some c \<Rightarrow>
          if readyState (sockets s (ws c)) = OPEN \<and> \<not> faulty (sockets s (ws c)) then
            pingEach
              (s\<lparr>sockets := (sockets s)
                   (ws c := (sockets s (ws c))\<lparr>pings := pings (sockets s (ws c)) + 1\<rparr>),
                 clients := AList.update clientId (c\<lparr>lastPing := Some now\<rparr>) (clients s)\<rparr>)
              now ids
          else pingEach s now ids)"

text \<open>One tick of the interval that \<^verbatim>\<open>startPingInterval\<close> installs: the
  cleanup, then the pings.\<close>

definition heartbeat :: "state \<Rightarrow> int \<Rightarrow> outcome \<times> state" where
  "heartbeat s now =
     (case cleanup s now of
        (Thrown e, s1) \<Rightarrow> (Thrown e, s1)
      | (Returned, s1) \<Rightarrow> (Returned, pingEach s1 now (map fst (clients s1))))"

section \<open>Message router\<close>

text \<open>
  Console output is not part of the state, but the text of a log line is computed where
  the source computes it, because an interpolation can raise. A value that the source
  interpolates again further down converts to the same text there.
\<close>

definition handleChatMessage :: "state \<Rightarrow> obj \<Rightarrow> string \<Rightarrow> outcome \<times> state" where
  "handleChatMessage s message senderClientId =
     (case template [getp message ''source'', getp message ''content'', getp message ''priority''] of
        Inl e \<Rightarrow> (Thrown e, s)
      | Inr line \<Rightarrow> (Returned, snd (broadcastToType s Dashboard message)))"

text \<open>The failure response of \<^verbatim>\<open>handleCommandMessage\<close>, with its error text.\<close>

definition errorResponse :: "string \<Rightarrow> int \<Rightarrow> obj \<Rightarrow> string \<Rightarrow> obj" where
  "errorResponse gid now message text =
     createMessage gid now
       [(''type'', Str ''command_response''),
        (''source'', Str ''server''),
        (''originalCommandId'', getp message ''id''),
        (''success'', Bool False),
        (''error'', Str text)]"

definition quoted :: "string \<Rightarrow> string" where
  "quoted t = [CHR 0x27] @ t @ [CHR 0x27]"

definition handleCommandMessage :: "state \<Rightarrow> string \<Rightarrow> int \<Rightarrow> obj \<Rightarrow> string \<Rightarrow> outcome \<times> state" where
  "handleCommandMessage s gid now message senderClientId =
     (case template [getp message ''source'', getp message ''targetComputer'',
                     getp message ''functionName''] of
        Inl e \<Rightarrow> (Thrown e, s)
      | Inr line \<Rightarrow>
          (case ToString (getp message ''targetComputer'') of
             Inl e \<Rightarrow> (Thrown e, s)
           | Inr target \<Rightarrow>
               (case getComputerByName s (getp message ''targetComputer'') of
                  None \<Rightarrow>
                    (Returned,
                     snd (sendToClient s senderClientId
                            (errorResponse gid now message
                               (''Computer '' @ quoted target @ '' is not connected''))))
                | Some targetClient \<Rightarrow>
                    (case sendToClient s (cid targetClient) message of
                       (success, s1) \<Rightarrow>
                         if success then (Returned, s1)
                         else
                           (Returned,
                            snd (sendToClient s1 senderClientId
                                   (errorResponse gid now message
                                      (''Failed to communicate with computer '' @
                                       quoted target))))))))"

text \<open>\<^verbatim>\<open>message.functions.map(f => f.name)\<close>: only an array has a
  \<^verbatim>\<open>map\<close> method, and reading the name of a \<^verbatim>\<open>null\<close> element raises.\<close>

fun namesOf :: "jsval list \<Rightarrow> error + jsval list" where
  "namesOf [] = Inr []"
| "namesOf (f # fs) =
     (case readField f ''name'' of
        Inl e \<Rightarrow> Inl e
      | Inr n \<Rightarrow> (case namesOf fs of Inl e \<Rightarrow> Inl e | Inr ns \<Rightarrow> Inr (n # ns)))"

definition functionNames :: "jsval \<Rightarrow> error + string" where
  "functionNames functions =
     (case functions of
        Arr fs \<Rightarrow> (case namesOf fs of Inl e \<Rightarrow> Inl e | Inr ns \<Rightarrow> joinElems '', '' ns)
      | _ \<Rightarrow> Inl TypeError)"

text \<open>\<^verbatim>\<open>message.functions.length\<close>, once \<^verbatim>\<open>functions\<close> is known to be an
  array.\<close>

fun lengthOf :: "jsval \<Rightarrow> int" where
  "lengthOf (Arr fs) = int (length fs)"
| "lengthOf v = 0"

definition welcomeMessage :: "string \<Rightarrow> int \<Rightarrow> string \<Rightarrow> jsval \<Rightarrow> obj" where
  "welcomeMessage gid now name functions =
     createMessage gid now
       [(''type'', Str ''chat''),
        (''source'', Str ''server''),
        (''content'', Str (''Welcome '' @ name @ ''! Registration successful. Functions: '' @
                           showInt (lengthOf functions))),
        (''priority'', Str ''medium''),
        (''category'', Str ''system'')]"

definition handleAPIRegistration :: "state \<Rightarrow> string \<Rightarrow> int \<Rightarrow> obj \<Rightarrow> string \<Rightarrow> outcome \<times> state" where
  "handleAPIRegistration s gid now message senderClientId =
     (case ToString (getp message ''computerName'') of
        Inl e \<Rightarrow> (Thrown e, s)
      | Inr name \<Rightarrow>
          (case ToString (getp message ''computerType'') of
             Inl e \<Rightarrow> (Thrown e, s)
           | Inr kind \<Rightarrow>
               (case functionNames (getp message ''functions'') of
                  Inl e \<Rightarrow> (Thrown e, s)
                | Inr names \<Rightarrow>
                    (let s1 = updateClient s senderClientId
                                [SetComputerName (getp message ''computerName''),
                                 SetComputerType (getp message ''computerType''),
                                 SetRegisteredFunctions (getp message ''functions'')];
                         s2 = snd (broadcastToType s1 Dashboard message)
                     in (Returned,
                         snd (sendToClient s2 senderClientId
                                (welcomeMessage gid now name (getp message ''functions''))))))))"

definition handleStatusUpdate :: "state \<Rightarrow> obj \<Rightarrow> string \<Rightarrow> outcome \<times> state" where
  "handleStatusUpdate s message senderClientId =
     (case ToString (getp message ''computerName'') of
        Inl e \<Rightarrow> (Thrown e, s)
      | Inr name \<Rightarrow>
          (case readField (getp message ''status'') ''currentTask'' of
             Inl e \<Rightarrow> (Thrown e, s)
           | Inr task \<Rightarrow>
               (case ToString (if truthy task then task else Str ''idle'') of
                  Inl e \<Rightarrow> (Thrown e, s)
                | Inr line \<Rightarrow> (Returned, snd (broadcastToType s Dashboard message)))))"

definition handleCommandResponse :: "state \<Rightarrow> obj \<Rightarrow> string \<Rightarrow> outcome \<times> state" where
  "handleCommandResponse s message senderClientId =
     (case (if truthy (getp message ''error'') then ToString (getp message ''error'') else Inr [])
      of
        Inl e \<Rightarrow> (Thrown e, s)
      | Inr line \<Rightarrow> (Returned, snd (broadcastToType s Dashboard message)))"

text \<open>\<^verbatim>\<open>routeMessage\<close>: log, validate, sanitize, then the \<^verbatim>\<open>switch\<close> on the
  type of the sanitized message.\<close>

definition routeMessage :: "state \<Rightarrow> string \<Rightarrow> int \<Rightarrow> obj \<Rightarrow> string \<Rightarrow> outcome \<times> state" where
  "routeMessage s gid now message senderClientId =
     (case logMessage message of
        Inl e \<Rightarrow> (Thrown e, s)
      | Inr line \<Rightarrow>
          if \<not> validateMessageType message then (Returned, s)
          else
            (case sanitizeMessage message of
               Inl e \<Rightarrow> (Thrown e, s)
             | Inr sanitizedMessage \<Rightarrow>
                 if getp sanitizedMessage ''type'' = Str ''chat'' then
                   handleChatMessage s sanitizedMessage senderClientId
                 else if getp sanitizedMessage ''type'' = Str ''command'' then
                   handleCommandMessage s gid now sanitizedMessage senderClientId
                 else if getp sanitizedMessage ''type'' = Str ''api_registration'' then
                   handleAPIRegistration s gid now sanitizedMessage senderClientId
                 else if getp sanitizedMessage ''type'' = Str ''status_update'' then
                   handleStatusUpdate s sanitizedMessage senderClientId
                 else if getp sanitizedMessage ''type'' = Str ''command_response'' then
                   handleCommandResponse s sanitizedMessage senderClientId
                 else (Returned, s)))"

text \<open>\<^verbatim>\<open>sendServerMessage\<close>\<close>

definition sendServerMessage :: "state \<Rightarrow> string \<Rightarrow> int \<Rightarrow> string \<Rightarrow> string \<Rightarrow> state" where
  "sendServerMessage s gid now content priority =
     snd (broadcastToType s Dashboard
            (createMessage gid now
               [(''type'', Str ''chat''), (''source'', Str ''server''), (''content'', Str content),
                (''priority'', Str priority), (''category'', Str ''system'')]))"

section \<open>The WebSocket message handler of the server\<close>

text \<open>
  The \<^verbatim>\<open>message\<close> callback that \<^verbatim>\<open>index.ts\<close> installs on every accepted
  connection, applied to a frame that parsed: a frame failing \<^verbatim>\<open>isValidMessage\<close>
  is dropped; a registration first turns the record of the connection into a
  \<^verbatim>\<open>computercraft\<close> one; then the message is routed. The callback runs inside
  \<^verbatim>\<open>try\<close>/\<^verbatim>\<open>catch\<close>, so whatever the router raises ends there.
\<close>

fun onMessage :: "state \<Rightarrow> string \<Rightarrow> int \<Rightarrow> jsval \<Rightarrow> string \<Rightarrow> state" where
  "onMessage s gid now (Obj message) clientId =
     (if \<not> isValidMessage (Obj message) then s
      else
        (let s1 = (if getClient s clientId \<noteq> None \<and>
                      getp message ''type'' = Str ''api_registration''
                   then updateClient s clientId [SetType Computercraft] else s)
         in snd (routeMessage s1 gid now message clientId)))"
| "onMessage s gid now v clientId = s"

section \<open>The message interfaces\<close>

text \<open>
  The interfaces of \<^verbatim>\<open>types/messages.ts\<close>, as predicates on an object: every
  declared field is present with its declared type, an optional field is absent or has
  it. \<^verbatim>\<open>Message\<close>, the parameter type of \<^verbatim>\<open>routeMessage\<close>, is their union.
  The entries of \<^verbatim>\<open>parameters\<close> and the optional numeric fields of a status, which
  the server never reads, are left unconstrained.
\<close>

fun isBool :: "jsval \<Rightarrow> bool" where
  "isBool (Bool b) = True"
| "isBool v = False"

fun isObj :: "jsval \<Rightarrow> bool" where
  "isObj (Obj m) = True"
| "isObj v = False"

fun isArr :: "jsval \<Rightarrow> bool" where
  "isArr (Arr xs) = True"
| "isArr v = False"

definition optional :: "(jsval \<Rightarrow> bool) \<Rightarrow> jsval \<Rightarrow> bool" where
  "optional P v = (v = Undefined \<or> P v)"

definition ChatMessage :: "obj \<Rightarrow> bool" where
  "ChatMessage m =
     (isValidMessage (Obj m) \<and> getp m ''type'' = Str ''chat'' \<and>
      isStr (getp m ''content'') \<and>
      getp m ''priority'' \<in> set [Str ''low'', Str ''medium'', Str ''high'', Str ''critical''] \<and>
      optional isStr (getp m ''category''))"

fun APIFunction :: "jsval \<Rightarrow> bool" where
  "APIFunction (Obj f) =
     (isStr (getp f ''name'') \<and> isStr (getp f ''description'') \<and>
      isArr (getp f ''parameters'') \<and> isStr (getp f ''category'') \<and>
      optional isNum (getp f ''cooldown''))"
| "APIFunction v = False"

fun APIFunctions :: "jsval \<Rightarrow> bool" where
  "APIFunctions (Arr fs) = list_all APIFunction fs"
| "APIFunctions v = False"

definition APIRegistrationMessage :: "obj \<Rightarrow> bool" where
  "APIRegistrationMessage m =
     (isValidMessage (Obj m) \<and> getp m ''type'' = Str ''api_registration'' \<and>
      isStr (getp m ''computerName'') \<and>
      getp m ''computerType'' \<in> set [Str ''computer'', Str ''turtle'', Str ''pocket''] \<and>
      APIFunctions (getp m ''functions'') \<and>
      isObj (getp m ''status''))"

definition CommandMessage :: "obj \<Rightarrow> bool" where
  "CommandMessage m =
     (isValidMessage (Obj m) \<and> getp m ''type'' = Str ''command'' \<and>
      isStr (getp m ''targetComputer'') \<and> isStr (getp m ''functionName'') \<and>
      isObj (getp m ''parameters''))"

fun StatusObject :: "jsval \<Rightarrow> bool" where
  "StatusObject (Obj st) =
     (isBool (getp st ''isActive'') \<and> optional isStr (getp st ''currentTask''))"
| "StatusObject v = False"

definition StatusUpdateMessage :: "obj \<Rightarrow> bool" where
  "StatusUpdateMessage m =
     (isValidMessage (Obj m) \<and> getp m ''type'' = Str ''status_update'' \<and>
      isStr (getp m ''computerName'') \<and> StatusObject (getp m ''status''))"

definition CommandResponseMessage :: "obj \<Rightarrow> bool" where
  "CommandResponseMessage m =
     (isValidMessage (Obj m) \<and> getp m ''type'' = Str ''command_response'' \<and>
      isStr (getp m ''originalCommandId'') \<and> isBool (getp m ''success'') \<and>
      optional isStr (getp m ''error''))"

definition Message :: "obj \<Rightarrow> bool" where
  "Message m =
     (ChatMessage m \<or> APIRegistrationMessage m \<or> CommandMessage m \<or>
      StatusUpdateMessage m \<or> CommandResponseMessage m)"

section \<open>Notions used in the statements\<close>

text \<open>A value that converts to text without raising.\<close>

definition printable :: "jsval \<Rightarrow> bool" where
  "printable v = (case ToString v of Inl e \<Rightarrow> False | Inr t \<Rightarrow> True)"

text \<open>The registry as the server builds it: a \<^verbatim>\<open>Map\<close> keyed by the id of the
  record, so no key twice and every record stored under its own id, in which every
  computer name converts to text (the router stores a name only after it has
  interpolated it in a log line). The empty registry is such a one, and every operation
  of the server keeps it so.\<close>

definition wf_registry :: "state \<Rightarrow> bool" where
  "wf_registry s =
     (distinct (map fst (clients s)) \<and>
      (\<forall>(k, c) \<in> set (clients s). cid c = k \<and> printable (computerName c)))"

text \<open>A send addressed to \<open>clientId\<close> is written to the socket \<open>h\<close>: the id has a
  record, \<open>h\<close> is its socket, and the socket is open and takes the write.\<close>

definition reaches :: "state \<Rightarrow> string \<Rightarrow> nat \<Rightarrow> bool" where
  "reaches s clientId h =
     (case map_of (clients s) clientId of
        None \<Rightarrow> False
      | Some c \<Rightarrow> ws c = h \<and> readyState (sockets s h) = OPEN \<and> \<not> faulty (sockets s h))"

text \<open>The reference time of the liveness rule in the words of the specification: the
  last ping, or the time of connection for a record that was never pinged.\<close>

definition lastSeen :: "client \<Rightarrow> int" where
  "lastSeen c = (case lastPing c of None \<Rightarrow> connectedAt c | Some p \<Rightarrow> p)"

text \<open>The table of the fields whose presence the router checks, by kind, and the
  messages that lack one of them or have no kind of the table.\<close>

definition checkedFields :: "string \<Rightarrow> string list option" where
  "checkedFields kind =
     (if kind = ''chat'' then Some [''content'', ''priority'']
      else if kind = ''command'' then Some [''targetComputer'', ''functionName'', ''parameters'']
      else if kind = ''api_registration'' then Some [''computerName'', ''computerType'', ''functions'']
      else if kind = ''status_update'' then Some [''computerName'', ''status'']
      else if kind = ''command_response'' then Some [''originalCommandId'', ''success'']
      else None)"

definition lacksCheckedField :: "obj \<Rightarrow> bool" where
  "lacksCheckedField m =
     (case getp m ''type'' of
        Str kind \<Rightarrow>
          (case checkedFields kind of
             None \<Rightarrow> True
           | Some ks \<Rightarrow> list_ex (\<lambda>k. \<not> hasKey k m) ks)
      | _ \<Rightarrow> True)"

section \<open>Sample connections\<close>

text \<open>Records and sockets from which the concrete registries of the examples are
  built: a socket with a given \<^verbatim>\<open>readyState\<close> and write behaviour and nothing sent
  yet, and a record connected and last pinged at time 1000.\<close>

abbreviation sampleSocket :: "nat \<Rightarrow> bool \<Rightarrow> socket" where
  "sampleSocket st f \<equiv> \<lparr>readyState = st, faulty = f, frames = [], pings = 0\<rparr>"

abbreviation sampleClient :: "string \<Rightarrow> nat \<Rightarrow> role \<Rightarrow> jsval \<Rightarrow> client" where
  "sampleClient k h t name \<equiv>
     \<lparr>cid = k, ws = h, ctype = t, connectedAt = 1000, lastPing = Some 1000,
      computerName = name, computerType = Undefined, registeredFunctions = Undefined,
      userAgent = Undefined\<rparr>"

section \<open>Sending and broadcasting\<close>

text \<open>A send changes nothing but the frames of the socket it is written to.\<close>

lemma sendToClient_clients: "clients (snd (sendToClient s clientId message)) = clients s"
  by (simp add: sendToClient_def split: option.split)

lemma sendToClient_link:
  "readyState (sockets (snd (sendToClient s clientId message)) h) = readyState (sockets s h) \<and>
   faulty (sockets (snd (sendToClient s clientId message)) h) = faulty (sockets s h) \<and>
   pings (sockets (snd (sendToClient s clientId message)) h) = pings (sockets s h)"
  by (simp add: sendToClient_def split: option.split)

lemma sendToClient_ok: "fst (sendToClient s clientId message) = (\<exists>h. reaches s clientId h)"
  by (auto simp add: sendToClient_def reaches_def split: option.split)

lemma sendToClient_frames:
  "frames (sockets (snd (sendToClient s clientId message)) h) =
   frames (sockets s h) @ (if reaches s clientId h then [message] else [])"
  by (auto simp add: sendToClient_def reaches_def split: option.split)



lemma sendEach_clients: "clients (snd (sendEach s cs message n)) = clients s"
proof (induction cs arbitrary: s n)
  case Nil
  show ?case by simp
next
  case (Cons c cs)
  obtain ok s' where r: "sendToClient s (cid c) message = (ok, s')"
    by (cases "sendToClient s (cid c) message")
  have "clients s' = clients s"
    using sendToClient_clients [of s "cid c" message] r by simp
  with Cons.IH r show ?case by simp
qed

lemma sendEach_link:
  "readyState (sockets (snd (sendEach s cs message n)) h) = readyState (sockets s h) \<and>
   faulty (sockets (snd (sendEach s cs message n)) h) = faulty (sockets s h) \<and>
   pings (sockets (snd (sendEach s cs message n)) h) = pings (sockets s h)"
proof (induction cs arbitrary: s n)
  case Nil
  show ?case by simp
next
  case (Cons c cs)
  obtain ok s' where r: "sendToClient s (cid c) message = (ok, s')"
    by (cases "sendToClient s (cid c) message")
  have "readyState (sockets s' h) = readyState (sockets s h) \<and>
        faulty (sockets s' h) = faulty (sockets s h) \<and>
        pings (sockets s' h) = pings (sockets s h)"
    using sendToClient_link [of s "cid c" message h] r by simp
  with Cons.IH [of s'] r show ?case by simp
qed





text \<open>
  C10. Neither \<^verbatim>\<open>sendToClient\<close> nor \<^verbatim>\<open>broadcastToType\<close> touches the
  registry: the map of clients after the call is the map before it, whether the delivery
  succeeds or fails.
\<close>

theorem send_paths_keep_registry:
  "clients (snd (sendToClient s clientId message)) = clients s \<and>
   clients (snd (broadcastToType s t message)) = clients s"
  by (simp add: sendToClient_clients broadcastToType_def sendEach_clients)

text \<open>A send to a dashboard whose socket raises fails, and the dashboard is still
  registered.\<close>

theorem send_paths_keep_registry_witness:
  "\<not> fst (sendToClient
            \<lparr>clients = [(''v1'', sampleClient ''v1'' 0 Dashboard Undefined)],
             sockets = (\<lambda>h. sampleSocket 1 True)\<rparr>
            ''v1'' [(''type'', Str ''chat'')]) \<and>
   clients (snd (sendToClient
            \<lparr>clients = [(''v1'', sampleClient ''v1'' 0 Dashboard Undefined)],
             sockets = (\<lambda>h. sampleSocket 1 True)\<rparr>
            ''v1'' [(''type'', Str ''chat'')])) =
     [(''v1'', sampleClient ''v1'' 0 Dashboard Undefined)]"
  using send_paths_keep_registry
    [of "\<lparr>clients = [(''v1'', sampleClient ''v1'' 0 Dashboard Undefined)],
             sockets = (\<lambda>h. sampleSocket 1 True)\<rparr>"
        "''v1''" "[(''type'', Str ''chat'')]"]
  by (simp add: sendToClient_def OPEN_def)

section \<open>Validation and sanitization\<close>

lemma getp_update: "getp (AList.update k v m) k' = (if k' = k then v else getp m k')"
  by (simp add: getp_def update_conv')

lemma hasKey_update: "hasKey k' (AList.update k v m) = (k' = k \<or> hasKey k' m)"
  by (simp add: hasKey_def update_conv')

lemma keys_update_present: "hasKey k m \<Longrightarrow> map fst (AList.update k v m) = map fst m"
  by (simp add: hasKey_def update_keys map_of_eq_None_iff)

lemma lacksCheckedField_iff: "lacksCheckedField m = (\<not> validateMessageType m)"
  by (cases "getp m ''type''")
     (simp_all add: lacksCheckedField_def validateMessageType_def checkedFields_def)

text \<open>
  C1, as the router implements it. A message whose type is absent or is none of the five
  kinds, or that lacks one of the fields the router checks for its kind, is dropped:
  \<^verbatim>\<open>routeMessage\<close> leaves the whole state as it was, so no record is added, changed
  or removed and no socket receives a frame.
\<close>

theorem unchecked_message_is_dropped:
  "lacksCheckedField m \<Longrightarrow> snd (routeMessage s gid now m senderClientId) = s"
  by (simp add: routeMessage_def lacksCheckedField_iff split: sum.split)

text \<open>A chat without a priority, routed while a dashboard is connected.\<close>

theorem unchecked_message_is_dropped_witness:
  "lacksCheckedField
     [(''id'', Str ''m1''), (''timestamp'', Num ''5''), (''type'', Str ''chat''),
      (''source'', Str ''dashboard''), (''content'', Str ''hi'')] \<and>
   snd (routeMessage
          \<lparr>clients = [(''v1'', sampleClient ''v1'' 0 Dashboard Undefined)],
           sockets = (\<lambda>h. sampleSocket 1 False)\<rparr>
          ''g1'' 7
          [(''id'', Str ''m1''), (''timestamp'', Num ''5''), (''type'', Str ''chat''),
           (''source'', Str ''dashboard''), (''content'', Str ''hi'')]
          ''v1'') =
     \<lparr>clients = [(''v1'', sampleClient ''v1'' 0 Dashboard Undefined)],
      sockets = (\<lambda>h. sampleSocket 1 False)\<rparr>"
  using unchecked_message_is_dropped
    [of "[(''id'', Str ''m1''), (''timestamp'', Num ''5''), (''type'', Str ''chat''),
          (''source'', Str ''dashboard''), (''content'', Str ''hi'')]"
        "\<lparr>clients = [(''v1'', sampleClient ''v1'' 0 Dashboard Undefined)],
           sockets = (\<lambda>h. sampleSocket 1 False)\<rparr>"
        "''g1''" 7 "''v1''"]
  by (simp add: lacksCheckedField_def checkedFields_def getp_def hasKey_def)

text \<open>The router itself does not look at \<^verbatim>\<open>id\<close>, \<^verbatim>\<open>timestamp\<close> or
  \<^verbatim>\<open>source\<close>: a chat without them is broadcast. Nor does it look at the
  \<^verbatim>\<open>status\<close> of a registration: one without it is recorded in the registry.\<close>

theorem unchecked_fields_counterexample:
  "\<not> hasKey ''id''
       [(''type'', Str ''chat''), (''content'', Str ''hi''), (''priority'', Str ''low'')] \<and>
   \<not> hasKey ''timestamp''
       [(''type'', Str ''chat''), (''content'', Str ''hi''), (''priority'', Str ''low'')] \<and>
   \<not> hasKey ''source''
       [(''type'', Str ''chat''), (''content'', Str ''hi''), (''priority'', Str ''low'')] \<and>
   frames (sockets (snd (routeMessage
          \<lparr>clients = [(''v1'', sampleClient ''v1'' 0 Dashboard Undefined)],
           sockets = (\<lambda>h. sampleSocket 1 False)\<rparr>
          ''g1'' 7
          [(''type'', Str ''chat''), (''content'', Str ''hi''), (''priority'', Str ''low'')]
          ''v1'')) 0) =
     [[(''type'', Str ''chat''), (''content'', Str ''hi''), (''priority'', Str ''low'')]] \<and>
   \<not> hasKey ''status''
       [(''id'', Str ''m1''), (''timestamp'', Num ''5''), (''type'', Str ''api_registration''),
        (''source'', Str ''Turtle1''), (''computerName'', Str ''Turtle1''),
        (''computerType'', Str ''turtle''), (''functions'', Arr [])] \<and>
   map_option computerName (getClient (snd (routeMessage
          \<lparr>clients = [(''d1'', sampleClient ''d1'' 0 Computercraft Undefined)],
           sockets = (\<lambda>h. sampleSocket 1 False)\<rparr>
          ''g1'' 7
          [(''id'', Str ''m1''), (''timestamp'', Num ''5''), (''type'', Str ''api_registration''),
        (''source'', Str ''Turtle1''), (''computerName'', Str ''Turtle1''),
        (''computerType'', Str ''turtle''), (''functions'', Arr [])]
          ''d1'')) ''d1'') = Some (Str ''Turtle1'')"
  by (simp add: routeMessage_def logMessage_def validateMessageType_def sanitizeMessage_def
      handleChatMessage_def handleAPIRegistration_def functionNames_def updateClient_def
      broadcastToType_def getClientsByType_def sendToClient_def getClient_def
      getp_def hasKey_def stripAngles_def OPEN_def Let_def)

text \<open>The base fields are the business of the message handler of the server, which
  drops a frame that fails \<^verbatim>\<open>isValidMessage\<close> before the router sees it.\<close>

lemma onMessage_drops_invalid: "\<not> isValidMessage v \<Longrightarrow> onMessage s gid now v clientId = s"
  by (cases v) simp_all

text \<open>That handler changes the type of the record as soon as a frame says
  \<^verbatim>\<open>api_registration\<close>, before the router validates it: a registration without a
  name, which the router drops, still leaves the sender a \<^verbatim>\<open>computercraft\<close>
  record.\<close>

lemma onMessage_promotes_before_validation:
  "clients (onMessage
      \<lparr>clients = [(''v1'', sampleClient ''v1'' 0 Dashboard Undefined)],
       sockets = (\<lambda>h. sampleSocket 1 False)\<rparr>
      ''g1'' 7
      (Obj [(''id'', Str ''m1''), (''timestamp'', Num ''5''), (''type'', Str ''api_registration''),
            (''source'', Str ''Turtle1'')])
      ''v1'') =
   [(''v1'', sampleClient ''v1'' 0 Computercraft Undefined)]"
  by (simp add: getClient_def updateClient_def routeMessage_def logMessage_def
      validateMessageType_def getp_def hasKey_def Let_def)

lemma routeMessage_chat:
  assumes "getp m ''type'' = Str ''chat''"
    and "hasKey ''content'' m" and "hasKey ''priority'' m"
    and "ToString (getp m ''source'') = Inr a"
    and "ToString (getp m ''content'') = Inr t"
    and "ToString (getp m ''priority'') = Inr p"
  shows "routeMessage s gid now m senderClientId =
     (Returned,
      snd (broadcastToType s Dashboard (AList.update ''content'' (Str (stripAngles t)) m)))"
  using assms
  by (simp add: routeMessage_def logMessage_def validateMessageType_def sanitizeMessage_def
      handleChatMessage_def getp_update)

text \<open>
  C4, as the code behaves. Validation tests the presence of the fields of the kind, not
  their types: a chat that has a content and a priority is accepted whatever these values
  are. When the conversions of the source, the content and the priority to text do not
  raise, the router broadcasts to the dashboards a copy of the chat whose content is
  \<^verbatim>\<open>String(content)\<close> without angle brackets; the priority goes out as it came.
\<close>

theorem presence_only_validation:
  assumes "getp m ''type'' = Str ''chat''"
    and "hasKey ''content'' m" and "hasKey ''priority'' m"
    and "ToString (getp m ''source'') = Inr a"
    and "ToString (getp m ''content'') = Inr t"
    and "ToString (getp m ''priority'') = Inr p"
  shows "validateMessageType m \<and>
     routeMessage s gid now m senderClientId =
       (Returned,
        snd (broadcastToType s Dashboard (AList.update ''content'' (Str (stripAngles t)) m)))"
  using assms routeMessage_chat [OF assms]
  by (simp add: validateMessageType_def)

text \<open>A chat whose content is the number ten to the 21, which JavaScript prints
  \<^verbatim>\<open>1e+21\<close>, and whose priority is not one of the four.\<close>

theorem presence_only_validation_witness:
  "validateMessageType
     [(''id'', Str ''m1''), (''timestamp'', Num ''5''), (''type'', Str ''chat''),
      (''source'', Str ''dashboard''), (''content'', Num ''1e+21''), (''priority'', Str ''urgent'')] \<and>
   routeMessage
     \<lparr>clients = [(''v1'', sampleClient ''v1'' 0 Dashboard Undefined)],
      sockets = (\<lambda>h. sampleSocket 1 False)\<rparr>
     ''g1'' 7
     [(''id'', Str ''m1''), (''timestamp'', Num ''5''), (''type'', Str ''chat''),
      (''source'', Str ''dashboard''), (''content'', Num ''1e+21''), (''priority'', Str ''urgent'')]
     ''v1'' =
   (Returned,
    snd (broadcastToType
      \<lparr>clients = [(''v1'', sampleClient ''v1'' 0 Dashboard Undefined)],
       sockets = (\<lambda>h. sampleSocket 1 False)\<rparr>
      Dashboard
      [(''id'', Str ''m1''), (''timestamp'', Num ''5''), (''type'', Str ''chat''),
       (''source'', Str ''dashboard''), (''content'', Str ''1e+21''), (''priority'', Str ''urgent'')]))"
  using presence_only_validation
    [of "[(''id'', Str ''m1''), (''timestamp'', Num ''5''), (''type'', Str ''chat''),
          (''source'', Str ''dashboard''), (''content'', Num ''1e+21''), (''priority'', Str ''urgent'')]"
        "''dashboard''" "''1e+21''" "''urgent''"
        "\<lparr>clients = [(''v1'', sampleClient ''v1'' 0 Dashboard Undefined)],
           sockets = (\<lambda>h. sampleSocket 1 False)\<rparr>"
        "''g1''" 7 "''v1''"]
  by (simp add: getp_def hasKey_def showInt_def showNat.simps digitChar_def stripAngles_def)

text \<open>A chat whose content is the number 5 and whose priority is not one of the four
  is not a \<^verbatim>\<open>ChatMessage\<close>, yet it passes validation and reaches the dashboard,
  its content turned into the text \<^verbatim>\<open>5\<close>.\<close>

theorem wrong_type_is_coerced_counterexample:
  "validateMessageType
     [(''id'', Str ''m1''), (''timestamp'', Num ''5''), (''type'', Str ''chat''),
      (''source'', Str ''dashboard''), (''content'', Num ''5''), (''priority'', Str ''urgent'')] \<and>
   \<not> ChatMessage
     [(''id'', Str ''m1''), (''timestamp'', Num ''5''), (''type'', Str ''chat''),
      (''source'', Str ''dashboard''), (''content'', Num ''5''), (''priority'', Str ''urgent'')] \<and>
   frames (sockets (snd (routeMessage
     \<lparr>clients = [(''v1'', sampleClient ''v1'' 0 Dashboard Undefined)],
      sockets = (\<lambda>h. sampleSocket 1 False)\<rparr>
     ''g1'' 7
     [(''id'', Str ''m1''), (''timestamp'', Num ''5''), (''type'', Str ''chat''),
      (''source'', Str ''dashboard''), (''content'', Num ''5''), (''priority'', Str ''urgent'')]
     ''v1'')) 0) =
   [[(''id'', Str ''m1''), (''timestamp'', Num ''5''), (''type'', Str ''chat''),
     (''source'', Str ''dashboard''), (''content'', Str ''5''), (''priority'', Str ''urgent'')]]"
  by (simp add: routeMessage_def logMessage_def validateMessageType_def sanitizeMessage_def
      handleChatMessage_def broadcastToType_def getClientsByType_def sendToClient_def
      ChatMessage_def getp_def hasKey_def stripAngles_def OPEN_def
      showInt_def showNat.simps digitChar_def)

text \<open>
  C7. For an accepted chat whose content is a text, sanitization yields a message whose
  content is that text without the characters \<^verbatim>\<open><\<close> and \<^verbatim>\<open>>\<close>, with the
  same keys in the same order and every other field as it was; an accepted message of
  another kind is returned as it is.
\<close>

theorem sanitize_strips_angle_brackets:
  assumes "validateMessageType m"
  shows "(getp m ''type'' = Str ''chat'' \<longrightarrow> getp m ''content'' = Str c \<longrightarrow>
            (\<exists>m'. sanitizeMessage m = Inr m' \<and>
                  getp m' ''content'' = Str (filter (\<lambda>x. x \<noteq> CHR ''<'' \<and> x \<noteq> CHR ''>'') c) \<and>
                  map fst m' = map fst m \<and>
                  (\<forall>k. k \<noteq> ''content'' \<longrightarrow> map_of m' k = map_of m k))) \<and>
         (getp m ''type'' \<noteq> Str ''chat'' \<longrightarrow> sanitizeMessage m = Inr m)"
proof (intro conjI impI)
  assume chat: "getp m ''type'' = Str ''chat''" and content: "getp m ''content'' = Str c"
  have present: "hasKey ''content'' m"
    using assms chat by (simp add: validateMessageType_def)
  let ?m' = "AList.update ''content'' (Str (stripAngles c)) m"
  have "sanitizeMessage m = Inr ?m'"
    using chat content by (simp add: sanitizeMessage_def)
  moreover have "getp ?m' ''content'' = Str (filter (\<lambda>x. x \<noteq> CHR ''<'' \<and> x \<noteq> CHR ''>'') c)"
    by (simp add: getp_update stripAngles_def)
  moreover have "map fst ?m' = map fst m"
    using present by (rule keys_update_present)
  moreover have "\<forall>k. k \<noteq> ''content'' \<longrightarrow> map_of ?m' k = map_of m k"
    by (simp add: update_conv')
  ultimately show "\<exists>m'. sanitizeMessage m = Inr m' \<and>
      getp m' ''content'' = Str (filter (\<lambda>x. x \<noteq> CHR ''<'' \<and> x \<noteq> CHR ''>'') c) \<and>
      map fst m' = map fst m \<and>
      (\<forall>k. k \<noteq> ''content'' \<longrightarrow> map_of m' k = map_of m k)"
    by blast
next
  assume "getp m ''type'' \<noteq> Str ''chat''"
  then show "sanitizeMessage m = Inr m"
    by (simp add: sanitizeMessage_def)
qed

text \<open>The content \<^verbatim>\<open><b>hi</b>\<close> becomes \<^verbatim>\<open>bhi/b\<close>.\<close>

theorem sanitize_strips_angle_brackets_witness:
  "validateMessageType
     [(''id'', Str ''m1''), (''timestamp'', Num ''5''), (''type'', Str ''chat''),
      (''source'', Str ''dashboard''), (''content'', Str ''<b>hi</b>''),
      (''priority'', Str ''low'')] \<and>
   (\<exists>m'. sanitizeMessage
       [(''id'', Str ''m1''), (''timestamp'', Num ''5''), (''type'', Str ''chat''),
        (''source'', Str ''dashboard''), (''content'', Str ''<b>hi</b>''),
        (''priority'', Str ''low'')] = Inr m' \<and>
      getp m' ''content'' = Str ''bhi/b'' \<and>
      map fst m' = [''id'', ''timestamp'', ''type'', ''source'', ''content'', ''priority''] \<and>
      getp m' ''priority'' = Str ''low'')"
proof -
  let ?m = "[(''id'', Str ''m1''), (''timestamp'', Num ''5''), (''type'', Str ''chat''),
      (''source'', Str ''dashboard''), (''content'', Str ''<b>hi</b>''),
      (''priority'', Str ''low'')]"
  have v: "validateMessageType ?m"
    by (simp add: validateMessageType_def getp_def hasKey_def)
  have "\<exists>m'. sanitizeMessage ?m = Inr m' \<and>
      getp m' ''content'' = Str ''bhi/b'' \<and> map fst m' = map fst ?m \<and>
      (\<forall>k. k \<noteq> ''content'' \<longrightarrow> map_of m' k = map_of ?m k)"
    using sanitize_strips_angle_brackets [OF v, of "''<b>hi</b>''"]
    by (simp add: getp_def)
  then obtain m' where m': "sanitizeMessage ?m = Inr m'" "getp m' ''content'' = Str ''bhi/b''"
      "map fst m' = map fst ?m" "\<forall>k. k \<noteq> ''content'' \<longrightarrow> map_of m' k = map_of ?m k"
    by blast
  from m'(4) have "map_of m' ''priority'' = map_of ?m ''priority''" by simp
  then have "getp m' ''priority'' = Str ''low''" by (simp add: getp_def)
  with v m' show ?thesis by simp
qed

section \<open>Commands\<close>

lemma isStr_iff: "isStr v = (\<exists>t. v = Str t)"
  by (cases v) simp_all

lemma isObj_iff: "isObj v = (\<exists>m. v = Obj m)"
  by (cases v) simp_all

lemma hasKey_if_defined: "getp m k \<noteq> Undefined \<Longrightarrow> hasKey k m"
  by (auto simp add: getp_def hasKey_def split: option.splits)

lemma errorResponse_explicit:
  "errorResponse gid now m text =
     [(''type'', Str ''command_response''), (''source'', Str ''server''),
      (''originalCommandId'', getp m ''id''), (''success'', Bool False),
      (''error'', Str text), (''id'', Str gid), (''timestamp'', Num (showInt now))]"
  by (simp add: errorResponse_def createMessage_def getp_def)

lemma CommandMessage_valid: "CommandMessage m \<Longrightarrow> validateMessageType m"
  by (auto simp add: CommandMessage_def validateMessageType_def isStr_iff isObj_iff
      intro!: hasKey_if_defined)

lemma routeMessage_command:
  assumes "CommandMessage m"
  shows "routeMessage s gid now m senderClientId = handleCommandMessage s gid now m senderClientId"
  using assms CommandMessage_valid [OF assms]
  by (auto simp add: routeMessage_def logMessage_def sanitizeMessage_def CommandMessage_def
      isStr_iff)

lemma registered_under_own_id:
  assumes "wf_registry s" and "getComputerByName s name = Some d"
  shows "map_of (clients s) (cid d) = Some d"
proof -
  have "d \<in> set (map snd (clients s))"
    using assms(2) by (auto simp add: getComputerByName_def find_Some_iff)
  then obtain k where k: "(k, d) \<in> set (clients s)" by auto
  with assms(1) have "cid d = k" by (auto simp add: wf_registry_def)
  with k assms(1) show ?thesis by (simp add: wf_registry_def)
qed

text \<open>
  C5. For a command whose target names no registered device, the router builds one
  envelope: a \<^verbatim>\<open>command_response\<close> with source \<^verbatim>\<open>server\<close>, the id of the
  command as \<^verbatim>\<open>originalCommandId\<close>, \<^verbatim>\<open>success: false\<close>, an error text
  that names the target, and the generated id and the time stamp that
  \<^verbatim>\<open>createMessage\<close> adds; these seven fields and no other. It hands this envelope
  to \<^verbatim>\<open>sendToClient\<close> for the sender and for nobody else: the registry is
  unchanged, the socket that a send to the sender reaches receives exactly this
  response, and every other socket receives nothing.
\<close>

theorem command_to_missing_target:
  assumes "CommandMessage m"
    and "getComputerByName s (getp m ''targetComputer'') = None"
  shows "\<exists>target r.
     getp m ''targetComputer'' = Str target \<and>
     r = [(''type'', Str ''command_response''), (''source'', Str ''server''),
          (''originalCommandId'', getp m ''id''), (''success'', Bool False),
          (''error'', Str (''Computer '' @ quoted target @ '' is not connected'')),
          (''id'', Str gid), (''timestamp'', Num (showInt now))] \<and>
     routeMessage s gid now m senderClientId = (Returned, snd (sendToClient s senderClientId r)) \<and>
     CommandResponseMessage r \<and>
     getp r ''type'' = Str ''command_response'' \<and>
     getp r ''success'' = Bool False \<and>
     getp r ''source'' = Str ''server'' \<and>
     getp r ''originalCommandId'' = getp m ''id'' \<and>
     clients (snd (routeMessage s gid now m senderClientId)) = clients s \<and>
     frames (sockets (snd (routeMessage s gid now m senderClientId)) h) =
       frames (sockets s h) @ (if reaches s senderClientId h then [r] else [])"
proof -
  obtain src tgt fn i where f: "getp m ''source'' = Str src" "getp m ''targetComputer'' = Str tgt"
      "getp m ''functionName'' = Str fn" "getp m ''id'' = Str i"
    using assms(1) by (auto simp add: CommandMessage_def isStr_iff)
  let ?r = "errorResponse gid now m (''Computer '' @ quoted tgt @ '' is not connected'')"
  have route: "routeMessage s gid now m senderClientId =
      (Returned, snd (sendToClient s senderClientId ?r))"
    using assms(2) f by (simp add: routeMessage_command [OF assms(1)] handleCommandMessage_def)
  have typed: "CommandResponseMessage ?r"
    using f(4) by (simp add: errorResponse_explicit CommandResponseMessage_def getp_def optional_def)
  have fields: "getp ?r ''type'' = Str ''command_response''" "getp ?r ''success'' = Bool False"
      "getp ?r ''source'' = Str ''server''" "getp ?r ''originalCommandId'' = getp m ''id''"
    by (simp_all add: errorResponse_explicit) (simp_all add: getp_def)
  show ?thesis
    using route typed fields f(2)
    by (intro exI [of _ tgt] exI [of _ ?r])
       (simp add: sendToClient_clients sendToClient_frames errorResponse_explicit)
qed

text \<open>A dashboard sends a command for \<^verbatim>\<open>Turtle2\<close> while only
  \<^verbatim>\<open>Turtle1\<close> is registered: its socket receives the response, which has the base
  fields of an envelope, and the socket of the device receives nothing.\<close>

theorem command_to_missing_target_witness:
  "routeMessage
          \<lparr>clients = [(''v1'', sampleClient ''v1'' 0 Dashboard Undefined),
                      (''d1'', sampleClient ''d1'' 1 Computercraft (Str ''Turtle1''))],
           sockets = (\<lambda>h. sampleSocket 1 False)\<rparr>
          ''g1'' 7
          [(''id'', Str ''m1''), (''timestamp'', Num ''5''), (''type'', Str ''command''),
           (''source'', Str ''dashboard''), (''targetComputer'', Str ''Turtle2''),
           (''functionName'', Str ''dig''), (''parameters'', Obj [])]
          ''v1'' =
     (Returned,
      snd (sendToClient
          \<lparr>clients = [(''v1'', sampleClient ''v1'' 0 Dashboard Undefined),
                      (''d1'', sampleClient ''d1'' 1 Computercraft (Str ''Turtle1''))],
           sockets = (\<lambda>h. sampleSocket 1 False)\<rparr>
          ''v1''
          [(''type'', Str ''command_response''), (''source'', Str ''server''),
           (''originalCommandId'', Str ''m1''), (''success'', Bool False),
           (''error'', Str (''Computer '' @ quoted ''Turtle2'' @ '' is not connected'')),
           (''id'', Str ''g1''), (''timestamp'', Num ''7'')])) \<and>
   isValidMessage (Obj
          [(''type'', Str ''command_response''), (''source'', Str ''server''),
           (''originalCommandId'', Str ''m1''), (''success'', Bool False),
           (''error'', Str (''Computer '' @ quoted ''Turtle2'' @ '' is not connected'')),
           (''id'', Str ''g1''), (''timestamp'', Num ''7'')]) \<and>
   frames (sockets (snd (routeMessage
          \<lparr>clients = [(''v1'', sampleClient ''v1'' 0 Dashboard Undefined),
                      (''d1'', sampleClient ''d1'' 1 Computercraft (Str ''Turtle1''))],
           sockets = (\<lambda>h. sampleSocket 1 False)\<rparr>
          ''g1'' 7
          [(''id'', Str ''m1''), (''timestamp'', Num ''5''), (''type'', Str ''command''),
           (''source'', Str ''dashboard''), (''targetComputer'', Str ''Turtle2''),
           (''functionName'', Str ''dig''), (''parameters'', Obj [])]
          ''v1'')) 0) =
     [[(''type'', Str ''command_response''), (''source'', Str ''server''),
           (''originalCommandId'', Str ''m1''), (''success'', Bool False),
           (''error'', Str (''Computer '' @ quoted ''Turtle2'' @ '' is not connected'')),
           (''id'', Str ''g1''), (''timestamp'', Num ''7'')]] \<and>
   frames (sockets (snd (routeMessage
          \<lparr>clients = [(''v1'', sampleClient ''v1'' 0 Dashboard Undefined),
                      (''d1'', sampleClient ''d1'' 1 Computercraft (Str ''Turtle1''))],
           sockets = (\<lambda>h. sampleSocket 1 False)\<rparr>
          ''g1'' 7
          [(''id'', Str ''m1''), (''timestamp'', Num ''5''), (''type'', Str ''command''),
           (''source'', Str ''dashboard''), (''targetComputer'', Str ''Turtle2''),
           (''functionName'', Str ''dig''), (''parameters'', Obj [])]
          ''v1'')) 1) = []"
proof -
  let ?S = "\<lparr>clients = [(''v1'', sampleClient ''v1'' 0 Dashboard Undefined),
                      (''d1'', sampleClient ''d1'' 1 Computercraft (Str ''Turtle1''))],
           sockets = (\<lambda>h. sampleSocket 1 False)\<rparr>"
  let ?M = "[(''id'', Str ''m1''), (''timestamp'', Num ''5''), (''type'', Str ''command''),
           (''source'', Str ''dashboard''), (''targetComputer'', Str ''Turtle2''),
           (''functionName'', Str ''dig''), (''parameters'', Obj [])]"
  let ?R = "[(''type'', Str ''command_response''), (''source'', Str ''server''),
           (''originalCommandId'', Str ''m1''), (''success'', Bool False),
           (''error'', Str (''Computer '' @ quoted ''Turtle2'' @ '' is not connected'')),
           (''id'', Str ''g1''), (''timestamp'', Num ''7'')]"
  have a: "CommandMessage ?M"
    by (simp add: CommandMessage_def getp_def)
  have b: "getComputerByName ?S (getp ?M ''targetComputer'') = None"
    by (simp add: getComputerByName_def getp_def)
  have c: "reaches ?S ''v1'' 0" "\<not> reaches ?S ''v1'' 1"
    by (simp_all add: reaches_def OPEN_def)
  have d: "getp ?M ''id'' = Str ''m1''" "getp ?M ''targetComputer'' = Str ''Turtle2''"
    by (simp_all add: getp_def)
  have e: "showInt 7 = ''7''"
    by (simp add: showInt_def showNat.simps digitChar_def)
  have f: "frames (sockets ?S 0) = []" "frames (sockets ?S 1) = []"
    by simp_all
  from command_to_missing_target [OF a b, of "''g1''" 7 "''v1''" 0]
  obtain t r where r: "getp ?M ''targetComputer'' = Str t"
      "r = [(''type'', Str ''command_response''), (''source'', Str ''server''),
            (''originalCommandId'', getp ?M ''id''), (''success'', Bool False),
            (''error'', Str (''Computer '' @ quoted t @ '' is not connected'')),
            (''id'', Str ''g1''), (''timestamp'', Num (showInt 7))]"
      "routeMessage ?S ''g1'' 7 ?M ''v1'' = (Returned, snd (sendToClient ?S ''v1'' r))"
      "CommandResponseMessage r"
      "frames (sockets (snd (routeMessage ?S ''g1'' 7 ?M ''v1'')) 0) =
         frames (sockets ?S 0) @ (if reaches ?S ''v1'' 0 then [r] else [])"
    by blast
  from r(1) have t: "t = ''Turtle2''"
    unfolding d by simp
  have rR: "r = ?R"
    unfolding r(2) d e t by (rule refl)
  from command_to_missing_target [OF a b, of "''g1''" 7 "''v1''" 1]
  obtain t' r' where r': "frames (sockets (snd (routeMessage ?S ''g1'' 7 ?M ''v1'')) 1) =
         frames (sockets ?S 1) @ (if reaches ?S ''v1'' 1 then [r'] else [])"
    by blast
  have one: "frames (sockets (snd (routeMessage ?S ''g1'' 7 ?M ''v1'')) 0) = [?R]"
    using r(5) c(1) unfolding f rR by simp
  have other: "frames (sockets (snd (routeMessage ?S ''g1'' 7 ?M ''v1'')) 1) = []"
    using r' c(2) unfolding f by simp
  have valid: "isValidMessage (Obj ?R)"
    using r(4) unfolding rR by (simp add: CommandResponseMessage_def)
  from r(3) have "routeMessage ?S ''g1'' 7 ?M ''v1'' = (Returned, snd (sendToClient ?S ''v1'' ?R))"
    unfolding rR .
  with valid one other show ?thesis
    by (intro conjI)
qed

text \<open>
  C6, for a device that can be written to. When the target of a command names a
  registered device (the first one of that name) whose socket is open and takes the
  write, the router returns, the registry is unchanged, the socket of the device
  receives the command as it came, and no other socket receives anything.
\<close>

theorem command_to_open_device:
  assumes "wf_registry s" and "CommandMessage m"
    and "getComputerByName s (getp m ''targetComputer'') = Some d"
    and "readyState (sockets s (ws d)) = OPEN" and "\<not> faulty (sockets s (ws d))"
  shows "fst (routeMessage s gid now m senderClientId) = Returned \<and>
     clients (snd (routeMessage s gid now m senderClientId)) = clients s \<and>
     frames (sockets (snd (routeMessage s gid now m senderClientId)) h) =
       frames (sockets s h) @ (if h = ws d then [m] else [])"
proof -
  obtain src tgt fn where f: "getp m ''source'' = Str src" "getp m ''targetComputer'' = Str tgt"
      "getp m ''functionName'' = Str fn"
    using assms(2) by (auto simp add: CommandMessage_def isStr_iff)
  have own: "map_of (clients s) (cid d) = Some d"
    using assms(1,3) by (rule registered_under_own_id)
  have r: "\<And>h. reaches s (cid d) h = (h = ws d)"
    using own assms(4,5) by (auto simp add: reaches_def)
  have ok: "fst (sendToClient s (cid d) m)"
    by (simp add: sendToClient_ok r)
  obtain s1 where s1: "sendToClient s (cid d) m = (True, s1)"
    using ok by (cases "sendToClient s (cid d) m") simp
  have "routeMessage s gid now m senderClientId = (Returned, snd (sendToClient s (cid d) m))"
    using assms(3) f s1
    by (simp add: routeMessage_command [OF assms(2)] handleCommandMessage_def)
  then show ?thesis
    by (simp add: sendToClient_clients sendToClient_frames r)
qed

text \<open>The command of the specification's example: the device gets it, the dashboard
  that sent it gets nothing.\<close>

theorem command_to_open_device_witness:
  "fst (routeMessage
          \<lparr>clients = [(''v1'', sampleClient ''v1'' 0 Dashboard Undefined),
                      (''d1'', sampleClient ''d1'' 1 Computercraft (Str ''Turtle1''))],
           sockets = (\<lambda>h. sampleSocket 1 False)\<rparr>
          ''g1'' 7
          [(''id'', Str ''m1''), (''timestamp'', Num ''5''), (''type'', Str ''command''),
           (''source'', Str ''dashboard''), (''targetComputer'', Str ''Turtle1''),
           (''functionName'', Str ''dig''), (''parameters'', Obj [])]
          ''v1'') = Returned \<and>
   frames (sockets (snd (routeMessage
          \<lparr>clients = [(''v1'', sampleClient ''v1'' 0 Dashboard Undefined),
                      (''d1'', sampleClient ''d1'' 1 Computercraft (Str ''Turtle1''))],
           sockets = (\<lambda>h. sampleSocket 1 False)\<rparr>
          ''g1'' 7
          [(''id'', Str ''m1''), (''timestamp'', Num ''5''), (''type'', Str ''command''),
           (''source'', Str ''dashboard''), (''targetComputer'', Str ''Turtle1''),
           (''functionName'', Str ''dig''), (''parameters'', Obj [])]
          ''v1'')) 1) =
     [[(''id'', Str ''m1''), (''timestamp'', Num ''5''), (''type'', Str ''command''),
           (''source'', Str ''dashboard''), (''targetComputer'', Str ''Turtle1''),
           (''functionName'', Str ''dig''), (''parameters'', Obj [])]] \<and>
   frames (sockets (snd (routeMessage
          \<lparr>clients = [(''v1'', sampleClient ''v1'' 0 Dashboard Undefined),
                      (''d1'', sampleClient ''d1'' 1 Computercraft (Str ''Turtle1''))],
           sockets = (\<lambda>h. sampleSocket 1 False)\<rparr>
          ''g1'' 7
          [(''id'', Str ''m1''), (''timestamp'', Num ''5''), (''type'', Str ''command''),
           (''source'', Str ''dashboard''), (''targetComputer'', Str ''Turtle1''),
           (''functionName'', Str ''dig''), (''parameters'', Obj [])]
          ''v1'')) 0) = []"
proof -
  let ?S = "\<lparr>clients = [(''v1'', sampleClient ''v1'' 0 Dashboard Undefined),
                      (''d1'', sampleClient ''d1'' 1 Computercraft (Str ''Turtle1''))],
           sockets = (\<lambda>h. sampleSocket 1 False)\<rparr>"
  let ?M = "[(''id'', Str ''m1''), (''timestamp'', Num ''5''), (''type'', Str ''command''),
           (''source'', Str ''dashboard''), (''targetComputer'', Str ''Turtle1''),
           (''functionName'', Str ''dig''), (''parameters'', Obj [])]"
  let ?d = "sampleClient ''d1'' 1 Computercraft (Str ''Turtle1'')"
  have a: "wf_registry ?S"
    by (simp add: wf_registry_def printable_def)
  have b: "CommandMessage ?M"
    by (simp add: CommandMessage_def getp_def)
  have c: "getComputerByName ?S (getp ?M ''targetComputer'') = Some ?d"
    by (simp add: getComputerByName_def getp_def)
  have d: "readyState (sockets ?S (ws ?d)) = OPEN"
    by (simp add: OPEN_def)
  have e: "\<not> faulty (sockets ?S (ws ?d))"
    by simp
  show ?thesis
    using command_to_open_device [OF a b c d e, of "''g1''" 7 "''v1''" 1]
      command_to_open_device [OF a b c d e, of "''g1''" 7 "''v1''" 0]
    by simp
qed

text \<open>The same command when the socket of \<^verbatim>\<open>Turtle1\<close> is closing
  (\<^verbatim>\<open>readyState\<close> 2): the device receives nothing, and the dashboard that sent the
  command receives a \<^verbatim>\<open>command_response\<close>.\<close>

theorem command_to_closing_device_counterexample:
  "getComputerByName
     \<lparr>clients = [(''v1'', sampleClient ''v1'' 0 Dashboard Undefined),
                      (''d1'', sampleClient ''d1'' 1 Computercraft (Str ''Turtle1''))],
           sockets = (\<lambda>h. sampleSocket 1 False)(1 := sampleSocket 2 False)\<rparr>
     (Str ''Turtle1'') = Some (sampleClient ''d1'' 1 Computercraft (Str ''Turtle1'')) \<and>
   frames (sockets (snd (routeMessage
          \<lparr>clients = [(''v1'', sampleClient ''v1'' 0 Dashboard Undefined),
                      (''d1'', sampleClient ''d1'' 1 Computercraft (Str ''Turtle1''))],
           sockets = (\<lambda>h. sampleSocket 1 False)(1 := sampleSocket 2 False)\<rparr>
          ''g1'' 7
          [(''id'', Str ''m1''), (''timestamp'', Num ''5''), (''type'', Str ''command''),
           (''source'', Str ''dashboard''), (''targetComputer'', Str ''Turtle1''),
           (''functionName'', Str ''dig''), (''parameters'', Obj [])]
          ''v1'')) 1) = [] \<and>
   map (\<lambda>r. getp r ''type'') (frames (sockets (snd (routeMessage
          \<lparr>clients = [(''v1'', sampleClient ''v1'' 0 Dashboard Undefined),
                      (''d1'', sampleClient ''d1'' 1 Computercraft (Str ''Turtle1''))],
           sockets = (\<lambda>h. sampleSocket 1 False)(1 := sampleSocket 2 False)\<rparr>
          ''g1'' 7
          [(''id'', Str ''m1''), (''timestamp'', Num ''5''), (''type'', Str ''command''),
           (''source'', Str ''dashboard''), (''targetComputer'', Str ''Turtle1''),
           (''functionName'', Str ''dig''), (''parameters'', Obj [])]
          ''v1'')) 0)) = [Str ''command_response'']"
  by (simp add: routeMessage_def logMessage_def validateMessageType_def sanitizeMessage_def
      handleCommandMessage_def getComputerByName_def sendToClient_def errorResponse_def
      createMessage_def getp_def hasKey_def OPEN_def)

section \<open>The registry stays well formed\<close>

lemma printable_text: "ToString v = Inr t \<Longrightarrow> printable v"
  by (simp add: printable_def)

lemma printable_falsy: "\<not> truthy v \<Longrightarrow> printable v"
  by (cases v) (simp_all add: printable_def)

lemma wf_cong: "clients s' = clients s \<Longrightarrow> wf_registry s' = wf_registry s"
  by (simp add: wf_registry_def)

lemma set_alist_update: "set (AList.update k v al) \<subseteq> insert (k, v) (set al)"
  by (induction al) auto

lemma wf_update:
  assumes "wf_registry s" and "cid c = k" and "printable (computerName c)"
  shows "wf_registry (s\<lparr>clients := AList.update k c (clients s)\<rparr>)"
proof -
  have "distinct (map fst (AList.update k c (clients s)))"
    using assms(1) by (simp add: wf_registry_def distinct_update)
  moreover have "\<forall>(k', c') \<in> set (AList.update k c (clients s)).
      cid c' = k' \<and> printable (computerName c')"
  proof (clarify)
    fix k' c'
    assume "(k', c') \<in> set (AList.update k c (clients s))"
    then have "(k', c') \<in> insert (k, c) (set (clients s))"
      using set_alist_update [of k c "clients s"] by blast
    with assms show "cid c' = k' \<and> printable (computerName c')"
      by (auto simp add: wf_registry_def)
  qed
  ultimately show ?thesis by (simp add: wf_registry_def)
qed

lemma wf_filter: "wf_registry s \<Longrightarrow> wf_registry (s\<lparr>clients := filter P (clients s)\<rparr>)"
  by (auto simp add: wf_registry_def distinct_map_filter)

lemma wf_empty: "wf_registry \<lparr>clients = [], sockets = f\<rparr>"
  by (simp add: wf_registry_def)

lemma wf_addClient: "wf_registry s \<Longrightarrow> wf_registry (snd (addClient s now rnd w t agent))"
  by (simp add: addClient_def Let_def wf_update printable_def)

lemma assign_keeps:
  assumes "\<forall>v. SetComputerName v \<in> set ups \<longrightarrow> printable v" and "printable (computerName c)"
  shows "cid (foldl assign c ups) = cid c \<and> printable (computerName (foldl assign c ups))"
  using assms
proof (induction ups arbitrary: c)
  case Nil
  then show ?case by simp
next
  case (Cons a ups)
  have "cid (assign c a) = cid c \<and> printable (computerName (assign c a))"
    using Cons.prems by (cases a) auto
  with Cons.IH [of "assign c a"] Cons.prems(1) show ?case by simp
qed

lemma wf_updateClient:
  assumes "wf_registry s" and "\<forall>v. SetComputerName v \<in> set ups \<longrightarrow> printable v"
  shows "wf_registry (updateClient s clientId ups)"
proof (cases "map_of (clients s) clientId")
  case None
  with assms(1) show ?thesis by (simp add: updateClient_def)
next
  case (Some c)
  then have "(clientId, c) \<in> set (clients s)" by (rule map_of_SomeD)
  with assms(1) have "cid c = clientId" "printable (computerName c)"
    by (auto simp add: wf_registry_def)
  with assms Some show ?thesis
    by (simp add: updateClient_def wf_update assign_keeps)
qed

lemma removeClient_wf:
  assumes "wf_registry s"
  shows "removeClient s k = (Returned, s\<lparr>clients := AList.delete k (clients s)\<rparr>)"
proof (cases "map_of (clients s) k")
  case None
  then have "k \<notin> fst ` set (clients s)" by (simp add: map_of_eq_None_iff)
  then have "AList.delete k (clients s) = clients s" by (rule delete_id)
  with None show ?thesis by (simp add: removeClient_def)
next
  case (Some c)
  then have "(k, c) \<in> set (clients s)" by (rule map_of_SomeD)
  with assms have "printable (computerName c)" by (auto simp add: wf_registry_def)
  then obtain t where "ToString (computerName c) = Inr t"
    by (auto simp add: printable_def split: sum.splits)
  with Some show ?thesis by (simp add: removeClient_def)
qed

lemma wf_removeClient: "wf_registry s \<Longrightarrow> wf_registry (snd (removeClient s k))"
  using wf_filter [of s "\<lambda>(k', c). k \<noteq> k'"]
  by (simp add: removeClient_wf AList.delete_eq)

lemma removeEach_wf:
  "wf_registry s \<Longrightarrow>
   removeEach s ks = (Returned, s\<lparr>clients := filter (\<lambda>(k, c). k \<notin> set ks) (clients s)\<rparr>)"
proof (induction ks arbitrary: s)
  case Nil
  show ?case by simp
next
  case (Cons k ks)
  let ?s1 = "s\<lparr>clients := AList.delete k (clients s)\<rparr>"
  have r: "removeClient s k = (Returned, ?s1)"
    using Cons.prems by (rule removeClient_wf)
  have "wf_registry ?s1"
    using wf_removeClient [OF Cons.prems, of k] r by simp
  then have "removeEach ?s1 ks =
      (Returned, ?s1\<lparr>clients := filter (\<lambda>(k', c). k' \<notin> set ks) (clients ?s1)\<rparr>)"
    by (rule Cons.IH)
  moreover have "filter (\<lambda>(k', c). k' \<notin> set ks) (AList.delete k (clients s)) =
      filter (\<lambda>(k', c). k' \<notin> set (k # ks)) (clients s)"
    by (auto simp add: AList.delete_eq intro: filter_cong)
  ultimately show ?case using r by simp
qed

lemma cleanup_wf:
  "wf_registry s \<Longrightarrow>
   cleanup s now =
     (Returned, s\<lparr>clients := filter (\<lambda>(k, c). k \<notin> set (deadClients s now)) (clients s)\<rparr>)"
  by (simp add: cleanup_def removeEach_wf)

lemma wf_cleanup: "wf_registry s \<Longrightarrow> wf_registry (snd (cleanup s now))"
  by (simp add: cleanup_wf wf_filter)

lemma wf_sendToClient: "wf_registry s \<Longrightarrow> wf_registry (snd (sendToClient s k message))"
  using wf_cong [OF sendToClient_clients] by simp

lemma wf_broadcastToType: "wf_registry s \<Longrightarrow> wf_registry (snd (broadcastToType s t message))"
  using wf_cong [of "snd (broadcastToType s t message)" s]
  by (simp add: broadcastToType_def sendEach_clients)

lemma pingEach_keys: "map fst (clients (pingEach s now ids)) = map fst (clients s)"
proof (induction ids arbitrary: s)
  case Nil
  show ?case by simp
next
  case (Cons k ids)
  show ?case
  proof (cases "map_of (clients s) k")
    case None
    then show ?thesis by (simp add: Cons.IH)
  next
    case (Some c)
    then have "k \<in> fst ` set (clients s)"
      by (metis map_of_eq_None_iff option.distinct(1))
    then have "\<And>c'. map fst (AList.update k c' (clients s)) = map fst (clients s)"
      by (simp add: update_keys)
    with Some show ?thesis by (simp add: Cons.IH)
  qed
qed

lemma pingEach_lookup_None:
  "map_of (clients s) k = None \<Longrightarrow> map_of (clients (pingEach s now ids)) k = None"
  using pingEach_keys [of s now ids]
  by (metis map_of_eq_None_iff set_map)

lemma wf_pingEach: "wf_registry s \<Longrightarrow> wf_registry (pingEach s now ids)"
proof (induction ids arbitrary: s)
  case Nil
  then show ?case by simp
next
  case (Cons k ids)
  show ?case
  proof (cases "map_of (clients s) k")
    case None
    then show ?thesis using Cons by simp
  next
    case (Some c)
    then have "(k, c) \<in> set (clients s)" by (rule map_of_SomeD)
    with Cons.prems have c: "cid c = k" "printable (computerName c)"
      by (auto simp add: wf_registry_def)
    let ?s1 = "s\<lparr>sockets := (sockets s)
                   (ws c := (sockets s (ws c))\<lparr>pings := pings (sockets s (ws c)) + 1\<rparr>),
                 clients := AList.update k (c\<lparr>lastPing := Some now\<rparr>) (clients s)\<rparr>"
    have "wf_registry (s\<lparr>clients := AList.update k (c\<lparr>lastPing := Some now\<rparr>) (clients s)\<rparr>)"
      using Cons.prems c by (intro wf_update) simp_all
    then have "wf_registry ?s1"
      by (simp add: wf_registry_def)
    then have "wf_registry (pingEach ?s1 now ids)"
      by (rule Cons.IH)
    with Some Cons show ?thesis by simp
  qed
qed

lemma wf_heartbeat: "wf_registry s \<Longrightarrow> wf_registry (snd (heartbeat s now))"
  by (simp add: heartbeat_def cleanup_wf wf_filter wf_pingEach)

section \<open>Liveness\<close>

lemma stored_record:
  assumes "wf_registry s" and "(k, c) \<in> set (clients s)"
  shows "cid c = k \<and> map_of (clients s) k = Some c"
  using assms by (auto simp add: wf_registry_def)

lemma alive_records:
  assumes "wf_registry s"
  shows "filter (\<lambda>c. isClientAlive s now (cid c)) (map snd (clients s)) =
         filter (\<lambda>c. now - pingStamp c < PING_INTERVAL * 3) (map snd (clients s))"
proof (rule filter_cong [OF refl])
  fix c
  assume "c \<in> set (map snd (clients s))"
  then obtain k where "(k, c) \<in> set (clients s)" by auto
  with assms have "map_of (clients s) (cid c) = Some c"
    using stored_record by blast
  then show "isClientAlive s now (cid c) = (now - pingStamp c < PING_INTERVAL * 3)"
    by (simp add: isClientAlive_def)
qed

lemma dead_record_not_counted:
  assumes "wf_registry s" and "map_of (clients s) k = Some c"
    and "\<not> now - pingStamp c < PING_INTERVAL * 3"
  shows "aliveClients (getStats (snd (removeClient s k)) now) = aliveClients (getStats s now)"
proof -
  let ?P = "\<lambda>c. now - pingStamp c < PING_INTERVAL * 3"
  have only: "\<And>k' c'. (k', c') \<in> set (clients s) \<Longrightarrow> k' = k \<Longrightarrow> c' = c"
    using assms(1,2) stored_record by fastforce
  have "filter ?P (map snd (AList.delete k (clients s))) = filter ?P (map snd (clients s))"
  proof -
    have "filter ?P (map snd (AList.delete k (clients s))) =
        map snd (filter (\<lambda>x. k \<noteq> fst x \<and> ?P (snd x)) (clients s))"
      by (simp add: AList.delete_eq filter_map comp_def split_def)
    also have "\<dots> = map snd (filter (\<lambda>x. ?P (snd x)) (clients s))"
    proof -
      have "filter (\<lambda>x. k \<noteq> fst x \<and> ?P (snd x)) (clients s) =
          filter (\<lambda>x. ?P (snd x)) (clients s)"
      proof (rule filter_cong [OF refl])
        fix x
        assume x: "x \<in> set (clients s)"
        show "(k \<noteq> fst x \<and> ?P (snd x)) = ?P (snd x)"
          using only [of "fst x" "snd x"] x assms(3) by auto
      qed
      then show ?thesis by simp
    qed
    also have "\<dots> = filter ?P (map snd (clients s))"
      by (simp add: filter_map comp_def)
    finally show ?thesis .
  qed
  then show ?thesis
    using alive_records [OF assms(1), of now]
      alive_records [OF wf_removeClient [OF assms(1)], of k now]
    by (simp add: getStats_def removeClient_wf [OF assms(1)])
qed

lemma dead_record_cleaned:
  assumes "wf_registry s" and "map_of (clients s) k = Some c" and "\<not> isClientAlive s now k"
  shows "map_of (clients (snd (cleanup s now))) k = None"
proof -
  have "(k, c) \<in> set (clients s)"
    using assms(2) by (rule map_of_SomeD)
  then have "k \<in> set (deadClients s now)"
    using assms(3) by (force simp add: deadClients_def)
  then have "k \<notin> fst ` set (clients (snd (cleanup s now)))"
    by (auto simp add: cleanup_wf [OF assms(1)])
  then show ?thesis by (simp add: map_of_eq_None_iff)
qed

lemma pingStamp_lastSeen: "lastPing c \<noteq> Some 0 \<Longrightarrow> pingStamp c = lastSeen c"
  by (simp add: pingStamp_def lastSeen_def split: option.split)

text \<open>
  C8. For a registered connection (whose last ping, when there is one, is not the time
  stamp 0, which \<^verbatim>\<open>||\<close> would take for absent), \<^verbatim>\<open>isClientAlive\<close> is true
  exactly when the time since its last ping, or since its connection if it was never
  pinged, is less than three heartbeat periods of 30000 ms. A connection past that limit
  does not count in the alive figure of \<^verbatim>\<open>getStats\<close> (the figure is the same
  without its record), and \<^verbatim>\<open>cleanup\<close> removes it, whatever the state of its
  socket; the next heartbeat tick, which starts with the cleanup, completes and leaves
  the registry without it.
\<close>

theorem three_missed_beats:
  assumes "wf_registry s" and "getClient s clientId = Some c" and "lastPing c \<noteq> Some 0"
  shows "(isClientAlive s now clientId \<longleftrightarrow> now - lastSeen c < 3 * 30000) \<and>
     (3 * 30000 \<le> now - lastSeen c \<longrightarrow>
        aliveClients (getStats (snd (removeClient s clientId)) now) =
          aliveClients (getStats s now) \<and>
        getClient (snd (cleanup s now)) clientId = None \<and>
        fst (heartbeat s now) = Returned \<and>
        getClient (snd (heartbeat s now)) clientId = None)"
proof -
  have c: "map_of (clients s) clientId = Some c"
    using assms(2) by (simp add: getClient_def)
  have alive: "isClientAlive s now clientId \<longleftrightarrow> now - lastSeen c < 3 * 30000"
    using c assms(3) by (simp add: isClientAlive_def pingStamp_lastSeen PING_INTERVAL_def)
  have "aliveClients (getStats (snd (removeClient s clientId)) now) =
          aliveClients (getStats s now) \<and>
        getClient (snd (cleanup s now)) clientId = None \<and>
        fst (heartbeat s now) = Returned \<and>
        getClient (snd (heartbeat s now)) clientId = None"
    if stale: "3 * 30000 \<le> now - lastSeen c"
  proof -
    have dead: "\<not> isClientAlive s now clientId"
      using alive stale by simp
    then have "\<not> now - pingStamp c < PING_INTERVAL * 3"
      using c by (simp add: isClientAlive_def)
    then have "aliveClients (getStats (snd (removeClient s clientId)) now) =
        aliveClients (getStats s now)"
      using assms(1) c by (simp add: dead_record_not_counted)
    moreover have gone: "map_of (clients (snd (cleanup s now))) clientId = None"
      using assms(1) c dead by (rule dead_record_cleaned)
    moreover have "fst (heartbeat s now) = Returned"
      by (simp add: heartbeat_def cleanup_wf [OF assms(1)])
    moreover have "map_of (clients (snd (heartbeat s now))) clientId = None"
      using gone by (simp add: heartbeat_def cleanup_wf [OF assms(1)] pingEach_lookup_None)
    ultimately show ?thesis by (simp add: getClient_def)
  qed
  with alive show ?thesis by blast
qed

text \<open>Two dashboards with open sockets, the first last pinged at 1000, the second at
  50000. The first is alive at 90999 and not at 91000; at 91000 the statistics count one
  alive client of two, and the heartbeat removes the first.\<close>

theorem three_missed_beats_witness:
  "isClientAlive
      \<lparr>clients = [(''v1'', sampleClient ''v1'' 0 Dashboard Undefined),
                  (''v2'', (sampleClient ''v2'' 1 Dashboard Undefined)\<lparr>lastPing := Some 50000\<rparr>)],
       sockets = (\<lambda>h. sampleSocket 1 False)\<rparr> 90999 ''v1'' \<and>
   \<not> isClientAlive
      \<lparr>clients = [(''v1'', sampleClient ''v1'' 0 Dashboard Undefined),
                  (''v2'', (sampleClient ''v2'' 1 Dashboard Undefined)\<lparr>lastPing := Some 50000\<rparr>)],
       sockets = (\<lambda>h. sampleSocket 1 False)\<rparr> 91000 ''v1'' \<and>
   totalClients (getStats
      \<lparr>clients = [(''v1'', sampleClient ''v1'' 0 Dashboard Undefined),
                  (''v2'', (sampleClient ''v2'' 1 Dashboard Undefined)\<lparr>lastPing := Some 50000\<rparr>)],
       sockets = (\<lambda>h. sampleSocket 1 False)\<rparr> 91000) = 2 \<and>
   aliveClients (getStats
      \<lparr>clients = [(''v1'', sampleClient ''v1'' 0 Dashboard Undefined),
                  (''v2'', (sampleClient ''v2'' 1 Dashboard Undefined)\<lparr>lastPing := Some 50000\<rparr>)],
       sockets = (\<lambda>h. sampleSocket 1 False)\<rparr> 91000) = 1 \<and>
   getClient (snd (heartbeat
      \<lparr>clients = [(''v1'', sampleClient ''v1'' 0 Dashboard Undefined),
                  (''v2'', (sampleClient ''v2'' 1 Dashboard Undefined)\<lparr>lastPing := Some 50000\<rparr>)],
       sockets = (\<lambda>h. sampleSocket 1 False)\<rparr> 91000)) ''v1'' = None"
proof -
  let ?S = "\<lparr>clients = [(''v1'', sampleClient ''v1'' 0 Dashboard Undefined),
                  (''v2'', (sampleClient ''v2'' 1 Dashboard Undefined)\<lparr>lastPing := Some 50000\<rparr>)],
       sockets = (\<lambda>h. sampleSocket 1 False)\<rparr>"
  let ?c = "sampleClient ''v1'' 0 Dashboard Undefined"
  have a: "wf_registry ?S"
    by (simp add: wf_registry_def printable_def)
  have b: "getClient ?S ''v1'' = Some ?c"
    by (simp add: getClient_def)
  have c: "lastPing ?c \<noteq> Some 0"
    by simp
  have d: "lastSeen ?c = 1000"
    by (simp add: lastSeen_def)
  have e: "aliveClients (getStats (snd (removeClient ?S ''v1'')) 91000) = 1"
    by (simp add: removeClient_def getStats_def isClientAlive_def pingStamp_def
        PING_INTERVAL_def)
  have f: "totalClients (getStats ?S 91000) = 2"
    by (simp add: getStats_def)
  show ?thesis
    using three_missed_beats [OF a b c, of 90999] three_missed_beats [OF a b c, of 91000]
    unfolding d e using f by simp
qed

section \<open>Registration\<close>

lemma find_after_update:
  assumes "map_of al k = Some c" and "P c'"
    and "\<forall>(k', r) \<in> set (takeWhile (\<lambda>(k', r). k' \<noteq> k) al). \<not> P r"
  shows "find P (map snd (AList.update k c' al)) = Some c'"
  using assms
proof (induction al)
  case Nil
  then show ?case by simp
next
  case (Cons p al)
  obtain k0 r0 where p: "p = (k0, r0)" by (cases p)
  show ?case
  proof (cases "k0 = k")
    case True
    with p Cons.prems(2) show ?thesis by simp
  next
    case False
    with p Cons.prems have "\<not> P r0" and "map_of al k = Some c"
      and "\<forall>(k', r) \<in> set (takeWhile (\<lambda>(k', r). k' \<noteq> k) al). \<not> P r"
      by auto
    with Cons.IH Cons.prems(2) p False show ?thesis by simp
  qed
qed

lemma joinElems_text: "list_all isStr ns \<Longrightarrow> \<exists>t. joinElems sep ns = Inr t"
proof (induction ns)
  case Nil
  show ?case by simp
next
  case (Cons n ns)
  then obtain t where "joinElems sep ns = Inr t" by auto
  moreover obtain a where "n = Str a" using Cons.prems by (auto simp add: isStr_iff)
  ultimately show ?case by simp
qed

lemma namesOf_typed:
  "list_all APIFunction fs \<Longrightarrow> \<exists>ns. namesOf fs = Inr ns \<and> list_all isStr ns"
proof (induction fs)
  case Nil
  show ?case by simp
next
  case (Cons f fs)
  then obtain ns where ns: "namesOf fs = Inr ns" "list_all isStr ns" by auto
  obtain o' where f: "f = Obj o'" "isStr (getp o' ''name'')"
    using Cons.prems by (cases f) simp_all
  with ns show ?case by simp
qed

lemma functionNames_typed: "APIFunctions v \<Longrightarrow> \<exists>t. functionNames v = Inr t"
proof (cases v)
  case (Arr fs)
  assume "APIFunctions v"
  with Arr obtain ns where "namesOf fs = Inr ns" "list_all isStr ns"
    using namesOf_typed by auto
  with Arr show ?thesis
    using joinElems_text [of ns "'', ''"] by (auto simp add: functionNames_def)
qed simp_all

lemma routeMessage_registration:
  assumes "APIRegistrationMessage m"
  shows "routeMessage s gid now m senderClientId =
     (Returned,
      snd (sendToClient
             (snd (broadcastToType
                     (updateClient s senderClientId
                        [SetComputerName (getp m ''computerName''),
                         SetComputerType (getp m ''computerType''),
                         SetRegisteredFunctions (getp m ''functions'')])
                     Dashboard m))
             senderClientId
             (welcomeMessage gid now (case getp m ''computerName'' of Str n \<Rightarrow> n | _ \<Rightarrow> [])
                (getp m ''functions''))))"
proof -
  obtain src name where f: "getp m ''source'' = Str src" "getp m ''computerName'' = Str name"
      "getp m ''type'' = Str ''api_registration''"
    using assms by (auto simp add: APIRegistrationMessage_def isStr_iff)
  obtain kind where k: "getp m ''computerType'' = Str kind"
    using assms by (auto simp add: APIRegistrationMessage_def)
  obtain t where t: "functionNames (getp m ''functions'') = Inr t"
    using assms functionNames_typed by (auto simp add: APIRegistrationMessage_def)
  have fs: "getp m ''functions'' \<noteq> Undefined"
    using assms by (auto simp add: APIRegistrationMessage_def)
  have "validateMessageType m"
    using f k fs by (simp add: validateMessageType_def hasKey_if_defined)
  then show ?thesis
    using f k t
    by (simp add: routeMessage_def logMessage_def sanitizeMessage_def
        handleAPIRegistration_def Let_def)
qed

text \<open>What a registration does to the lookup by name.\<close>

lemma registration_lookup:
  assumes "APIRegistrationMessage m"
    and "getClient s senderClientId = Some c"
    and "ctype c = Computercraft"
    and "\<forall>(k, r) \<in> set (takeWhile (\<lambda>(k, r). k \<noteq> senderClientId) (clients s)).
           \<not> (ctype r = Computercraft \<and> computerName r = getp m ''computerName'')"
  shows "fst (routeMessage s gid now m senderClientId) = Returned \<and>
     getComputerByName (snd (routeMessage s gid now m senderClientId)) (getp m ''computerName'') =
       getClient (snd (routeMessage s gid now m senderClientId)) senderClientId \<and>
     getClient (snd (routeMessage s gid now m senderClientId)) senderClientId =
       Some (c\<lparr>computerName := getp m ''computerName'',
               computerType := getp m ''computerType'',
               registeredFunctions := getp m ''functions''\<rparr>)"
proof -
  let ?c' = "c\<lparr>computerName := getp m ''computerName'',
               computerType := getp m ''computerType'',
               registeredFunctions := getp m ''functions''\<rparr>"
  let ?s' = "snd (routeMessage s gid now m senderClientId)"
  obtain name where name: "getp m ''computerName'' = Str name"
    using assms(1) by (auto simp add: APIRegistrationMessage_def isStr_iff)
  have c: "map_of (clients s) senderClientId = Some c"
    using assms(2) by (simp add: getClient_def)
  have cl: "clients ?s' = AList.update senderClientId ?c' (clients s)"
    using c
    by (simp add: routeMessage_registration [OF assms(1)] sendToClient_clients
        broadcastToType_def sendEach_clients updateClient_def)
  have eq: "\<And>r. strictEq (computerName r) (Str name) = (computerName r = Str name)"
    by (case_tac "computerName r") simp_all
  have "find (\<lambda>r. ctype r = Computercraft \<and> computerName r = Str name)
          (map snd (AList.update senderClientId ?c' (clients s))) = Some ?c'"
    using c assms(3,4) name by (intro find_after_update) auto
  then have byName: "getComputerByName ?s' (getp m ''computerName'') = Some ?c'"
    by (simp add: getComputerByName_def cl name eq)
  have byId: "getClient ?s' senderClientId = Some ?c'"
    by (simp add: getClient_def cl update_conv')
  show ?thesis
    using byName byId by (simp add: routeMessage_registration [OF assms(1)])
qed

text \<open>
  C2, for a sender that is a device. When a well-formed \<^verbatim>\<open>api_registration\<close> is
  routed from a connection whose record exists with type \<^verbatim>\<open>computercraft\<close>, and no
  \<^verbatim>\<open>computercraft\<close> record stored before it carries the registered name, the
  router returns, and afterwards \<^verbatim>\<open>getComputerByName\<close> of that name yields the
  record of the sender, which is the old record with the name, the type and the function
  list of the envelope.
\<close>

theorem registration_is_found_by_name:
  assumes "APIRegistrationMessage m"
    and "getClient s senderClientId = Some c"
    and "ctype c = Computercraft"
    and "\<forall>(k, r) \<in> set (takeWhile (\<lambda>(k, r). k \<noteq> senderClientId) (clients s)).
           \<not> (ctype r = Computercraft \<and> computerName r = getp m ''computerName'')"
  shows "fst (routeMessage s gid now m senderClientId) = Returned \<and>
     getComputerByName (snd (routeMessage s gid now m senderClientId)) (getp m ''computerName'') =
       getClient (snd (routeMessage s gid now m senderClientId)) senderClientId \<and>
     getClient (snd (routeMessage s gid now m senderClientId)) senderClientId =
       Some (c\<lparr>computerName := getp m ''computerName'',
               computerType := getp m ''computerType'',
               registeredFunctions := getp m ''functions''\<rparr>)"
  using assms by (rule registration_lookup)

text \<open>A device connection registers as \<^verbatim>\<open>Turtle1\<close> with one function.\<close>

theorem registration_is_found_by_name_witness:
  "fst (routeMessage
        \<lparr>clients = [(''v1'', sampleClient ''v1'' 0 Dashboard Undefined),
                   (''d1'', sampleClient ''d1'' 1 Computercraft Undefined)],
        sockets = (\<lambda>h. sampleSocket 1 False)\<rparr>
        ''g1'' 7
        [(''id'', Str ''m1''), (''timestamp'', Num ''5''), (''type'', Str ''api_registration''),
         (''source'', Str ''Turtle1''), (''computerName'', Str ''Turtle1''),
         (''computerType'', Str ''turtle''),
         (''functions'', Arr [Obj [(''name'', Str ''dig''), (''description'', Str ''Dig''),
                                   (''parameters'', Arr []), (''category'', Str ''mining'')]]),
         (''status'', Obj [])]
        ''d1'') = Returned \<and>
   getComputerByName (snd (routeMessage
        \<lparr>clients = [(''v1'', sampleClient ''v1'' 0 Dashboard Undefined),
                   (''d1'', sampleClient ''d1'' 1 Computercraft Undefined)],
        sockets = (\<lambda>h. sampleSocket 1 False)\<rparr>
        ''g1'' 7
        [(''id'', Str ''m1''), (''timestamp'', Num ''5''), (''type'', Str ''api_registration''),
         (''source'', Str ''Turtle1''), (''computerName'', Str ''Turtle1''),
         (''computerType'', Str ''turtle''),
         (''functions'', Arr [Obj [(''name'', Str ''dig''), (''description'', Str ''Dig''),
                                   (''parameters'', Arr []), (''category'', Str ''mining'')]]),
         (''status'', Obj [])]
        ''d1'')) (Str ''Turtle1'') =
     Some ((sampleClient ''d1'' 1 Computercraft (Str ''Turtle1''))
             \<lparr>computerType := Str ''turtle'',
              registeredFunctions := Arr [Obj [(''name'', Str ''dig''), (''description'', Str ''Dig''),
                                   (''parameters'', Arr []), (''category'', Str ''mining'')]]\<rparr>)"
proof -
  let ?S = "\<lparr>clients = [(''v1'', sampleClient ''v1'' 0 Dashboard Undefined),
                   (''d1'', sampleClient ''d1'' 1 Computercraft Undefined)],
        sockets = (\<lambda>h. sampleSocket 1 False)\<rparr>"
  let ?M = "[(''id'', Str ''m1''), (''timestamp'', Num ''5''), (''type'', Str ''api_registration''),
         (''source'', Str ''Turtle1''), (''computerName'', Str ''Turtle1''),
         (''computerType'', Str ''turtle''),
         (''functions'', Arr [Obj [(''name'', Str ''dig''), (''description'', Str ''Dig''),
                                   (''parameters'', Arr []), (''category'', Str ''mining'')]]),
         (''status'', Obj [])]"
  let ?c = "sampleClient ''d1'' 1 Computercraft Undefined"
  have a: "APIRegistrationMessage ?M"
    by (simp add: APIRegistrationMessage_def getp_def optional_def)
  have b: "getClient ?S ''d1'' = Some ?c"
    by (simp add: getClient_def)
  have c: "ctype ?c = Computercraft"
    by simp
  have d: "\<forall>(k, r) \<in> set (takeWhile (\<lambda>(k, r). k \<noteq> ''d1'') (clients ?S)).
           \<not> (ctype r = Computercraft \<and> computerName r = getp ?M ''computerName'')"
    by simp
  have e: "getp ?M ''computerName'' = Str ''Turtle1''" "getp ?M ''computerType'' = Str ''turtle''"
      "getp ?M ''functions'' = Arr [Obj [(''name'', Str ''dig''), (''description'', Str ''Dig''),
                                   (''parameters'', Arr []), (''category'', Str ''mining'')]]"
    by (simp_all add: getp_def)
  show ?thesis
    using registration_is_found_by_name [OF a b c d, of "''g1''" 7]
    unfolding e by simp
qed

text \<open>The router does not change the type of a record: the same registration routed
  from a connection that is still a dashboard is not found by name afterwards. And when
  an earlier device already has the name, the lookup yields that device, not the sender.\<close>

theorem registration_not_found_counterexample:
  "APIRegistrationMessage
        [(''id'', Str ''m1''), (''timestamp'', Num ''5''), (''type'', Str ''api_registration''),
         (''source'', Str ''Turtle1''), (''computerName'', Str ''Turtle1''),
         (''computerType'', Str ''turtle''),
         (''functions'', Arr [Obj [(''name'', Str ''dig''), (''description'', Str ''Dig''),
                                   (''parameters'', Arr []), (''category'', Str ''mining'')]]),
         (''status'', Obj [])] \<and>
   getComputerByName (snd (routeMessage
        \<lparr>clients = [(''v1'', sampleClient ''v1'' 0 Dashboard Undefined)],
        sockets = (\<lambda>h. sampleSocket 1 False)\<rparr>
        ''g1'' 7
        [(''id'', Str ''m1''), (''timestamp'', Num ''5''), (''type'', Str ''api_registration''),
         (''source'', Str ''Turtle1''), (''computerName'', Str ''Turtle1''),
         (''computerType'', Str ''turtle''),
         (''functions'', Arr [Obj [(''name'', Str ''dig''), (''description'', Str ''Dig''),
                                   (''parameters'', Arr []), (''category'', Str ''mining'')]]),
         (''status'', Obj [])]
        ''v1'')) (Str ''Turtle1'') = None \<and>
   map_option cid (getComputerByName (snd (routeMessage
        \<lparr>clients = [(''d0'', sampleClient ''d0'' 0 Computercraft (Str ''Turtle1'')),
                   (''d1'', sampleClient ''d1'' 1 Computercraft Undefined)],
        sockets = (\<lambda>h. sampleSocket 1 False)\<rparr>
        ''g1'' 7
        [(''id'', Str ''m1''), (''timestamp'', Num ''5''), (''type'', Str ''api_registration''),
         (''source'', Str ''Turtle1''), (''computerName'', Str ''Turtle1''),
         (''computerType'', Str ''turtle''),
         (''functions'', Arr [Obj [(''name'', Str ''dig''), (''description'', Str ''Dig''),
                                   (''parameters'', Arr []), (''category'', Str ''mining'')]]),
         (''status'', Obj [])]
        ''d1'')) (Str ''Turtle1'')) = Some ''d0''"
  by (simp add: APIRegistrationMessage_def optional_def routeMessage_def logMessage_def validateMessageType_def sanitizeMessage_def
      handleAPIRegistration_def functionNames_def updateClient_def broadcastToType_def
      getClientsByType_def sendToClient_def getComputerByName_def getClient_def getp_def hasKey_def
      Let_def OPEN_def)

text \<open>On the WebSocket path the message handler has made the sender a
  \<^verbatim>\<open>computercraft\<close> record by the time the router runs, so there a registration
  from any registered connection is found by name, unless an earlier device has the
  name.\<close>

lemma takeWhile_update:
  "takeWhile (\<lambda>(k', r). k' \<noteq> k) (AList.update k v al) = takeWhile (\<lambda>(k', r). k' \<noteq> k) al"
  by (induction al) auto

lemma onMessage_registration:
  assumes "APIRegistrationMessage m"
    and "getClient s clientId = Some c"
    and "\<forall>(k, r) \<in> set (takeWhile (\<lambda>(k, r). k \<noteq> clientId) (clients s)).
           \<not> (ctype r = Computercraft \<and> computerName r = getp m ''computerName'')"
  shows "getComputerByName (onMessage s gid now (Obj m) clientId) (getp m ''computerName'') =
     Some (c\<lparr>ctype := Computercraft,
             computerName := getp m ''computerName'',
             computerType := getp m ''computerType'',
             registeredFunctions := getp m ''functions''\<rparr>)"
proof -
  let ?s1 = "updateClient s clientId [SetType Computercraft]"
  have valid: "isValidMessage (Obj m)" and kind: "getp m ''type'' = Str ''api_registration''"
    using assms(1) by (simp_all add: APIRegistrationMessage_def)
  have c: "map_of (clients s) clientId = Some c"
    using assms(2) by (simp add: getClient_def)
  have cl1: "clients ?s1 = AList.update clientId (c\<lparr>ctype := Computercraft\<rparr>) (clients s)"
    using c by (simp add: updateClient_def)
  have on: "onMessage s gid now (Obj m) clientId = snd (routeMessage ?s1 gid now m clientId)"
    using valid kind assms(2) by (simp add: Let_def del: isValidMessage.simps)
  have g1: "getClient ?s1 clientId = Some (c\<lparr>ctype := Computercraft\<rparr>)"
    by (simp add: getClient_def cl1 update_conv')
  have t1: "ctype (c\<lparr>ctype := Computercraft\<rparr>) = Computercraft"
    by simp
  have before: "\<forall>(k, r) \<in> set (takeWhile (\<lambda>(k, r). k \<noteq> clientId) (clients ?s1)).
           \<not> (ctype r = Computercraft \<and> computerName r = getp m ''computerName'')"
    using assms(3) by (simp add: cl1 takeWhile_update)
  show ?thesis
    unfolding on using registration_lookup [OF assms(1) g1 t1 before, of gid now]
    by simp
qed

section \<open>Exceptions\<close>

text \<open>A message of each interface makes its handler return.\<close>

lemma isBool_iff: "isBool v = (\<exists>b. v = Bool b)"
  by (cases v) simp_all

lemma returns_chat:
  assumes "ChatMessage m"
  shows "fst (routeMessage s gid now m senderClientId) = Returned"
proof -
  obtain src c p where f: "getp m ''source'' = Str src" "getp m ''content'' = Str c"
      "getp m ''priority'' = Str p" "getp m ''type'' = Str ''chat''"
    using assms by (auto simp add: ChatMessage_def isStr_iff)
  have "hasKey ''content'' m" "hasKey ''priority'' m"
    using f by (simp_all add: hasKey_if_defined)
  then show ?thesis
    using f by (simp add: routeMessage_chat [where a = src and t = c and p = p])
qed

lemma returns_command:
  assumes "CommandMessage m"
  shows "fst (routeMessage s gid now m senderClientId) = Returned"
proof -
  obtain src tgt fn where f: "getp m ''source'' = Str src" "getp m ''targetComputer'' = Str tgt"
      "getp m ''functionName'' = Str fn"
    using assms by (auto simp add: CommandMessage_def isStr_iff)
  show ?thesis
    using f
    by (simp add: routeMessage_command [OF assms] handleCommandMessage_def
        split: option.split prod.split)
qed

lemma returns_registration:
  "APIRegistrationMessage m \<Longrightarrow> fst (routeMessage s gid now m senderClientId) = Returned"
  by (simp add: routeMessage_registration)

lemma returns_status:
  assumes "StatusUpdateMessage m"
  shows "fst (routeMessage s gid now m senderClientId) = Returned"
proof -
  obtain src name where f: "getp m ''source'' = Str src" "getp m ''computerName'' = Str name"
      "getp m ''type'' = Str ''status_update''"
    using assms by (auto simp add: StatusUpdateMessage_def isStr_iff)
  obtain st where st: "getp m ''status'' = Obj st" "optional isStr (getp st ''currentTask'')"
    using assms by (cases "getp m ''status''") (simp_all add: StatusUpdateMessage_def)
  have task: "\<exists>t. ToString (if truthy (getp st ''currentTask'') then getp st ''currentTask''
                              else Str ''idle'') = Inr t"
    using st(2) by (auto simp add: optional_def isStr_iff)
  have "validateMessageType m"
    using f st by (simp add: validateMessageType_def hasKey_if_defined)
  then show ?thesis
    using f st task
    by (auto simp add: routeMessage_def logMessage_def sanitizeMessage_def
        handleStatusUpdate_def)
qed

lemma returns_response:
  assumes "CommandResponseMessage m"
  shows "fst (routeMessage s gid now m senderClientId) = Returned"
proof -
  obtain src oid ok where f: "getp m ''source'' = Str src" "getp m ''originalCommandId'' = Str oid"
      "getp m ''success'' = Bool ok" "getp m ''type'' = Str ''command_response''"
    using assms by (auto simp add: CommandResponseMessage_def isStr_iff isBool_iff)
  have err: "\<exists>t. (if truthy (getp m ''error'') then ToString (getp m ''error'') else Inr []) = Inr t"
    using assms by (auto simp add: CommandResponseMessage_def optional_def isStr_iff)
  have "validateMessageType m"
    using f by (simp add: validateMessageType_def hasKey_if_defined)
  then show ?thesis
    using f err
    by (auto simp add: routeMessage_def logMessage_def sanitizeMessage_def
        handleCommandResponse_def)
qed

lemma returns_rejected:
  assumes "isValidMessage (Obj m)" and "\<not> validateMessageType m"
  shows "fst (routeMessage s gid now m senderClientId) = Returned"
proof -
  obtain ty src where "getp m ''type'' = Str ty" "getp m ''source'' = Str src"
    using assms(1) by (auto simp add: isStr_iff)
  with assms(2) show ?thesis
    by (simp add: routeMessage_def logMessage_def)
qed

text \<open>
  C3, for the messages the parameter type admits. \<^verbatim>\<open>routeMessage\<close> is a total
  function: it ends on every envelope. It returns, rather than raises, on every envelope
  that is a \<^verbatim>\<open>Message\<close>, and on every envelope with the four base fields that
  validation rejects.
\<close>

theorem typed_or_rejected_returns:
  assumes "Message m \<or> (isValidMessage (Obj m) \<and> \<not> validateMessageType m)"
  shows "fst (routeMessage s gid now m senderClientId) = Returned"
  using assms unfolding Message_def
  by (elim disjE conjE)
     (simp_all add: returns_chat returns_command returns_registration returns_status
        returns_response returns_rejected)

text \<open>A status update with an active status returns, and so does one without a
  status, which validation rejects.\<close>

theorem typed_or_rejected_returns_witness:
  "fst (routeMessage
     \<lparr>clients = [(''v1'', sampleClient ''v1'' 0 Dashboard Undefined)],
      sockets = (\<lambda>h. sampleSocket 1 False)\<rparr>
     ''g1'' 7
     [(''id'', Str ''m1''), (''timestamp'', Num ''5''), (''type'', Str ''status_update''),
      (''source'', Str ''Turtle1''), (''computerName'', Str ''Turtle1''),
      (''status'', Obj [(''isActive'', Bool True)])]
     ''v1'') = Returned \<and>
   fst (routeMessage
     \<lparr>clients = [(''v1'', sampleClient ''v1'' 0 Dashboard Undefined)],
      sockets = (\<lambda>h. sampleSocket 1 False)\<rparr>
     ''g1'' 7
     [(''id'', Str ''m1''), (''timestamp'', Num ''5''), (''type'', Str ''status_update''),
      (''source'', Str ''Turtle1''), (''computerName'', Str ''Turtle1'')]
     ''v1'') = Returned"
  using typed_or_rejected_returns
    [of "[(''id'', Str ''m1''), (''timestamp'', Num ''5''), (''type'', Str ''status_update''),
      (''source'', Str ''Turtle1''), (''computerName'', Str ''Turtle1''),
      (''status'', Obj [(''isActive'', Bool True)])]"
     "\<lparr>clients = [(''v1'', sampleClient ''v1'' 0 Dashboard Undefined)],
      sockets = (\<lambda>h. sampleSocket 1 False)\<rparr>" "''g1''" 7 "''v1''"]
    typed_or_rejected_returns
    [of "[(''id'', Str ''m1''), (''timestamp'', Num ''5''), (''type'', Str ''status_update''),
      (''source'', Str ''Turtle1''), (''computerName'', Str ''Turtle1'')]"
     "\<lparr>clients = [(''v1'', sampleClient ''v1'' 0 Dashboard Undefined)],
      sockets = (\<lambda>h. sampleSocket 1 False)\<rparr>" "''g1''" 7 "''v1''"]
  by (simp add: Message_def StatusUpdateMessage_def validateMessageType_def getp_def hasKey_def
      optional_def)

text \<open>A registration whose \<^verbatim>\<open>functions\<close> is the number 5 has all base fields
  and passes validation; the handler then calls \<^verbatim>\<open>map\<close> on the number and raises
  \<^verbatim>\<open>TypeError\<close>, which leaves \<^verbatim>\<open>routeMessage\<close>.\<close>

theorem accepted_message_raises_counterexample:
  "isValidMessage (Obj
     [(''id'', Str ''m1''), (''timestamp'', Num ''5''), (''type'', Str ''api_registration''),
      (''source'', Str ''Turtle1''), (''computerName'', Str ''Turtle1''),
      (''computerType'', Str ''turtle''), (''functions'', Num ''5'')]) \<and>
   validateMessageType
     [(''id'', Str ''m1''), (''timestamp'', Num ''5''), (''type'', Str ''api_registration''),
      (''source'', Str ''Turtle1''), (''computerName'', Str ''Turtle1''),
      (''computerType'', Str ''turtle''), (''functions'', Num ''5'')] \<and>
   fst (routeMessage
     \<lparr>clients = [(''v1'', sampleClient ''v1'' 0 Dashboard Undefined)],
      sockets = (\<lambda>h. sampleSocket 1 False)\<rparr>
     ''g1'' 7
     [(''id'', Str ''m1''), (''timestamp'', Num ''5''), (''type'', Str ''api_registration''),
      (''source'', Str ''Turtle1''), (''computerName'', Str ''Turtle1''),
      (''computerType'', Str ''turtle''), (''functions'', Num ''5'')]
     ''v1'') = Thrown TypeError"
  by (simp add: routeMessage_def logMessage_def validateMessageType_def sanitizeMessage_def
      handleAPIRegistration_def functionNames_def getp_def hasKey_def)

section \<open>Routing keeps the registry well formed\<close>

text \<open>Only a registration writes to the registry, and it stores a name that the
  handler has just converted to text.\<close>

lemma handleChatMessage_clients:
  "clients (snd (handleChatMessage s m k)) = clients s"
  by (simp add: handleChatMessage_def broadcastToType_def sendEach_clients split: sum.split)

lemma handleStatusUpdate_clients:
  "clients (snd (handleStatusUpdate s m k)) = clients s"
  by (simp add: handleStatusUpdate_def broadcastToType_def sendEach_clients split: sum.split)

lemma handleCommandResponse_clients:
  "clients (snd (handleCommandResponse s m k)) = clients s"
  by (simp add: handleCommandResponse_def broadcastToType_def sendEach_clients split: sum.split)

lemma sendToClient_clientsD: "sendToClient s k m = (ok, s') \<Longrightarrow> clients s' = clients s"
  using sendToClient_clients [of s k m] by simp

lemma handleCommandMessage_clients:
  "clients (snd (handleCommandMessage s gid now m k)) = clients s"
  by (auto simp add: handleCommandMessage_def sendToClient_clients
      split: sum.split option.split prod.split dest: sendToClient_clientsD)

lemma wf_handleAPIRegistration:
  assumes "wf_registry s"
  shows "wf_registry (snd (handleAPIRegistration s gid now m k))"
proof (cases "ToString (getp m ''computerName'')")
  case (Inl e)
  with assms show ?thesis by (simp add: handleAPIRegistration_def)
next
  case (Inr name)
  let ?s1 = "updateClient s k
               [SetComputerName (getp m ''computerName''),
                SetComputerType (getp m ''computerType''),
                SetRegisteredFunctions (getp m ''functions'')]"
  have wf1: "wf_registry ?s1"
    using assms Inr by (intro wf_updateClient) (auto simp add: printable_text)
  have "clients (snd (handleAPIRegistration s gid now m k)) = clients s \<or>
        clients (snd (handleAPIRegistration s gid now m k)) = clients ?s1"
    using Inr
    by (simp add: handleAPIRegistration_def Let_def sendToClient_clients broadcastToType_def
        sendEach_clients split: sum.split)
  then show ?thesis
  proof
    assume "clients (snd (handleAPIRegistration s gid now m k)) = clients s"
    with assms show ?thesis by (simp add: wf_registry_def)
  next
    assume "clients (snd (handleAPIRegistration s gid now m k)) = clients ?s1"
    with wf1 show ?thesis by (simp add: wf_registry_def)
  qed
qed

lemma wf_routeMessage:
  assumes "wf_registry s"
  shows "wf_registry (snd (routeMessage s gid now m k))"
proof -
  have keep: "\<And>s'. clients s' = clients s \<Longrightarrow> wf_registry s'"
    using assms by (simp add: wf_registry_def)
  show ?thesis
    using assms
    by (auto simp add: routeMessage_def keep handleChatMessage_clients
        handleCommandMessage_clients handleStatusUpdate_clients handleCommandResponse_clients
        wf_handleAPIRegistration split: sum.split)
qed

lemma wf_onMessage:
  assumes "wf_registry s"
  shows "wf_registry (onMessage s gid now v k)"
proof (cases v)
  case (Obj m)
  have "wf_registry (updateClient s k [SetType Computercraft])"
    using assms by (intro wf_updateClient) simp_all
  with assms Obj show ?thesis
    by (simp add: Let_def wf_routeMessage del: isValidMessage.simps)
qed (simp_all add: assms)

end
